theory Spec2Isabelle
  imports Complex_Main "HOL-Library.AList"
begin

section \<open>The training orchestrator of train_DTI.py\<close>

text \<open>
  The theory embeds \<^verbatim>\<open>src/train_DTI.py\<close>: the functions \<^verbatim>\<open>step\<close>,
  \<^verbatim>\<open>contrastive_step\<close>, \<^verbatim>\<open>test\<close>, \<^verbatim>\<open>wandb_log\<close> and \<^verbatim>\<open>main\<close>.
  The model, the optimizers with their learning-rate schedulers, the margin scheduler, the
  metric classes, the file system and the wandb sink are external objects: their types are
  the type variables \<open>'m\<close> (the parameter state of a model), \<open>'o\<close> (an optimizer together
  with its scheduler), \<open>'g\<close> (the margin-scheduled loss object) and \<open>'t\<close> (a tensor), and
  their operations are the fields of an environment record. Every call of the source on
  one of them is a call of the corresponding field, in the source's order.
\<close>

subsection \<open>Exceptions\<close>

text \<open>
  Values of Python's class \<^verbatim>\<open>Exception\<close>, which is what the clause
  \<^verbatim>\<open>except Exception\<close> of the terminal test pass matches. \<open>Raised\<close> is an exception
  raised inside an external call (torch, torchmetrics, wandb, the file system).
\<close>

datatype exn =
    UnboundLocalError string
  | ZeroDivisionError
  | KeyError string
  | Raised string

subsection \<open>Configuration\<close>

record config =
  task :: string
  watch_metric :: string
  classify :: bool
  contrastive :: bool
  epochs :: int
  every_n_val :: int
  batch_size :: int
  contrastive_batch_size :: int
  experiment_id :: string
  model_save_dir :: "string option"
  wandb_proj :: "string option"
  wandb_save :: bool

datatype datamodule = TDCDataModule | EnzPredDataModule | DTIDataModule

datatype metric_class = MeanSquaredError | PearsonCorrCoef | AveragePrecision | AUROC

text \<open>Lines 213 to 250: the task selects the data module, the task mode and the watched metric.\<close>

definition resolve_task :: "string list \<Rightarrow> config \<Rightarrow> config \<times> datamodule" where
  "resolve_task enzpred_datasets cfg =
     (if task cfg = ''dti_dg''
      then (cfg\<lparr>classify := False, watch_metric := ''val/pcc''\<rparr>, TDCDataModule)
      else if task cfg \<in> set enzpred_datasets
      then (cfg\<lparr>classify := True, watch_metric := ''val/aupr''\<rparr>, EnzPredDataModule)
      else (cfg\<lparr>classify := True, watch_metric := ''val/aupr''\<rparr>, DTIDataModule))"

text \<open>Lines 328 to 349: the metric tables of the validation and the test pass.\<close>

definition val_metrics :: "config \<Rightarrow> (string \<times> metric_class) list" where
  "val_metrics cfg =
     (if task cfg = ''dti_dg''
      then [(''val/mse'', MeanSquaredError), (''val/pcc'', PearsonCorrCoef)]
      else [(''val/aupr'', AveragePrecision), (''val/auroc'', AUROC)])"

definition test_metrics :: "config \<Rightarrow> (string \<times> metric_class) list" where
  "test_metrics cfg =
     (if task cfg = ''dti_dg''
      then [(''test/mse'', MeanSquaredError), (''test/pcc'', PearsonCorrCoef)]
      else [(''test/aupr'', AveragePrecision), (''test/auroc'', AUROC)])"

subsection \<open>Snapshot paths\<close>

text \<open>Decimal digits of a natural number, and Python's format \<^verbatim>\<open>{epo:02}\<close>.\<close>

definition digit :: "nat \<Rightarrow> char" where
  "digit d = ''0123456789'' ! d"

fun str_nat :: "nat \<Rightarrow> string" where
  "str_nat n = (if n < 10 then [digit n] else str_nat (n div 10) @ [digit (n mod 10)])"

declare str_nat.simps [simp del]

definition format_02 :: "nat \<Rightarrow> string" where
  "format_02 n = (if n < 10 then CHR ''0'' # str_nat n else str_nat n)"

definition save_dir :: "config \<Rightarrow> string" where
  "save_dir cfg = (case model_save_dir cfg of None \<Rightarrow> ''.'' | Some d \<Rightarrow> d)"

definition epoch_save_path :: "config \<Rightarrow> nat \<Rightarrow> string" where
  "epoch_save_path cfg epo =
     save_dir cfg @ ''/'' @ experiment_id cfg @ ''_best_model_epoch'' @ format_02 epo @ ''.pt''"

definition final_save_path :: "config \<Rightarrow> string" where
  "final_save_path cfg = save_dir cfg @ ''/'' @ experiment_id cfg @ ''_best_model.pt''"

subsection \<open>The external objects\<close>

text \<open>
  The value of a metric is a scalar floating-point tensor: a number or NaN (the Pearson
  correlation of constant predictions is NaN). \<open>exceeds a b\<close> is Python's \<^verbatim>\<open>a > b\<close>,
  which is false as soon as one side is NaN. Rounding is not modelled: the run only
  compares metric values.
\<close>

datatype scalar = NaN | Number real

fun exceeds :: "scalar \<Rightarrow> scalar \<Rightarrow> bool" where
  "exceeds (Number a) (Number b) = (b < a)"
| "exceeds a b = False"

text \<open>What is handed to the wandb sink: the values of a logged dictionary, and the calls.\<close>

datatype 't wval = WInt int | WReal real | WScalar scalar | WTensor 't | WList "real list"

datatype 't wandb_call =
    WandbInit string string
  | WandbWatch
  | WandbLog "(string \<times> 't wval) list"
  | WandbLogArtifact string string

text \<open>
  The calls made on the optimizers, the schedulers, the evaluation function and
  \<^verbatim>\<open>torch.save\<close>, in program order. \<open>Test\<close> carries the provider (for a validation
  pass with its epoch), the model that was evaluated and the dictionary \<^verbatim>\<open>test\<close>
  returned; \<open>TorchSave\<close> the path and the saved parameter state.
\<close>

datatype split = Validation nat | Testing

datatype 'm call =
    OptStep nat nat
  | LrSchedulerStep nat
  | OptContrastiveStep nat nat
  | MarginStep nat
  | LrSchedulerContrastiveStep nat
  | Test split 'm "(string \<times> scalar) list"
  | TorchSave string 'm

datatype log_line = LogCheckpoint string | LogFinal string | LogError exn

text \<open>
  The environment of a run. The four providers are finite lists of batches, a batch being
  a triple of tensors. \<open>forward\<close> is the call \<^verbatim>\<open>model(drug, target)\<close>, given the mode
  (training or evaluation) the model is in at the call; the two projectors are the
  sub-modules used by the contrastive pass. \<open>backward_step\<close> is
  \<^verbatim>\<open>zero_grad(); backward(); step()\<close> of an optimizer on a loss, \<open>scheduler_step\<close> the
  step of its learning-rate scheduler. \<open>triplet_loss\<close> is the call of the margin-scheduled
  loss object, \<open>margin_step\<close> its method \<^verbatim>\<open>step\<close> and \<open>margin_of\<close> its property
  \<^verbatim>\<open>margin\<close>. \<open>compute_metric\<close> is what an instance of a metric class computes after it
  has received the given (prediction, label) pairs; the calls on a metric instance are
  taken to return. An external call that raises returns
  \<open>Inl\<close>; \<open>torch_save_raises\<close> and \<open>wandb_raises\<close> say whether the call raises, and what.
  The three times are the differences of clock readings that the run reports. The device
  is not modelled.
\<close>

record ('m, 'o, 'g, 't) env =
  enzpred_dataset_list :: "string list"
  training_generator :: "('t \<times> 't \<times> 't) list"
  validation_generator :: "('t \<times> 't \<times> 't) list"
  testing_generator :: "('t \<times> 't \<times> 't) list"
  contrastive_generator :: "('t \<times> 't \<times> 't) list"
  initial_model :: 'm
  initial_opt :: 'o
  initial_opt_contrastive :: 'o
  initial_margin_loss :: 'g
  forward :: "bool \<Rightarrow> 'm \<Rightarrow> 't \<Rightarrow> 't \<Rightarrow> exn + 't"
  target_projector :: "'m \<Rightarrow> 't \<Rightarrow> exn + 't"
  drug_projector :: "'m \<Rightarrow> 't \<Rightarrow> exn + 't"
  to_float :: "'t \<Rightarrow> 't"
  to_int :: "'t \<Rightarrow> 't"
  loss_fct :: "'t \<Rightarrow> 't \<Rightarrow> exn + 't"
  triplet_loss :: "'g \<Rightarrow> 't \<Rightarrow> 't \<Rightarrow> 't \<Rightarrow> exn + 't"
  margin_step :: "'g \<Rightarrow> 'g"
  margin_of :: "'g \<Rightarrow> real"
  backward_step :: "'o \<Rightarrow> 'm \<Rightarrow> 't \<Rightarrow> exn + 'o \<times> 'm"
  scheduler_step :: "'o \<Rightarrow> 'o"
  get_lr :: "'o \<Rightarrow> real"
  compute_metric :: "metric_class \<Rightarrow> ('t \<times> 't) list \<Rightarrow> scalar"
  torch_save_raises :: "string \<Rightarrow> exn option"
  wandb_raises :: "'t wandb_call \<Rightarrow> exn option"
  epoch_time :: "nat \<Rightarrow> real"
  eval_time :: real
  wall_clock_time :: real

text \<open>
  The local variables of \<^verbatim>\<open>main\<close> that the epoch loop and the terminal pass read and
  write, the sink, the log and the calls made so far. \<open>loss\<close>, \<open>contrastive_loss\<close>
  and \<open>epo\<close> are unbound (\<open>None\<close>) until their first assignment. The fields
  \<open>opt_contrastive\<close> and \<open>contrastive_loss_fct\<close> are read only under
  \<^verbatim>\<open>config.contrastive\<close>, where the source has created them.
\<close>

record ('m, 'o, 'g, 't) state =
  model :: 'm
  opt :: 'o
  opt_contrastive :: 'o
  contrastive_loss_fct :: 'g
  max_metric :: scalar
  model_max :: 'm
  loss :: "'t option"
  contrastive_loss :: "'t option"
  epo :: "nat option"
  sink :: "'t wandb_call list"
  logged :: "log_line list"
  calls :: "'m call list"

text \<open>Lines 288 to 326: the objects as created before the loop; \<^verbatim>\<open>max_metric = 0\<close>.\<close>

definition initial_state :: "('m, 'o, 'g, 't) env \<Rightarrow> ('m, 'o, 'g, 't) state" where
  "initial_state env =
     \<lparr>model = initial_model env, opt = initial_opt env,
      opt_contrastive = initial_opt_contrastive env,
      contrastive_loss_fct = initial_margin_loss env,
      max_metric = Number 0, model_max = initial_model env,
      loss = None, contrastive_loss = None, epo = None,
      sink = [], logged = [], calls = []\<rparr>"

subsection \<open>Statements: a state transformer that may raise\<close>

text \<open>
  A statement returns the state it leaves behind and the exception it raised, if any:
  what was written before a raise stays written.
\<close>

definition seq ::
  "('s \<Rightarrow> exn option \<times> 's) \<Rightarrow> ('s \<Rightarrow> exn option \<times> 's) \<Rightarrow> 's \<Rightarrow> exn option \<times> 's" where
  "seq f g s = (case f s of (None, s1) \<Rightarrow> g s1 | (Some e, s1) \<Rightarrow> (Some e, s1))"

fun for_each ::
  "('a \<Rightarrow> 's \<Rightarrow> exn option \<times> 's) \<Rightarrow> 'a list \<Rightarrow> 's \<Rightarrow> exn option \<times> 's" where
  "for_each body [] s = (None, s)"
| "for_each body (x # xs) s =
     (case body x s of (None, s1) \<Rightarrow> for_each body xs s1 | (Some e, s1) \<Rightarrow> (Some e, s1))"

subsection \<open>step, contrastive_step, test, wandb_log\<close>

definition step ::
  "('m, 'o, 'g, 't) env \<Rightarrow> bool \<Rightarrow> 'm \<Rightarrow> 't \<times> 't \<times> 't \<Rightarrow> exn + 't \<times> 't" where
  "step env training mdl batch =
     (case batch of (drug, target, label) \<Rightarrow>
        (case forward env training mdl drug target of
           Inl e \<Rightarrow> Inl e
         | Inr pred \<Rightarrow> Inr (pred, to_float env label)))"

definition contrastive_step ::
  "('m, 'o, 'g, 't) env \<Rightarrow> 'm \<Rightarrow> 't \<times> 't \<times> 't \<Rightarrow> exn + 't \<times> 't \<times> 't" where
  "contrastive_step env mdl batch =
     (case batch of (anchor, positive, negative) \<Rightarrow>
        (case target_projector env mdl anchor of
           Inl e \<Rightarrow> Inl e
         | Inr anchor_projection \<Rightarrow>
             (case drug_projector env mdl positive of
                Inl e \<Rightarrow> Inl e
              | Inr positive_projection \<Rightarrow>
                  (case drug_projector env mdl negative of
                     Inl e \<Rightarrow> Inl e
                   | Inr negative_projection \<Rightarrow>
                       Inr (anchor_projection, positive_projection, negative_projection)))))"

text \<open>
  The batch loop of \<^verbatim>\<open>test\<close>: the model runs in evaluation mode, the label is coerced by
  the task mode, and every metric instance receives each (prediction, label) pair.
\<close>

fun test_batches ::
  "('m, 'o, 'g, 't) env \<Rightarrow> 'm \<Rightarrow> bool \<Rightarrow> ('t \<times> 't \<times> 't) list \<Rightarrow> ('t \<times> 't) list
    \<Rightarrow> exn + ('t \<times> 't) list" where
  "test_batches env mdl clsfy [] seen = Inr seen"
| "test_batches env mdl clsfy (batch # batches) seen =
     (case step env False mdl batch of
        Inl e \<Rightarrow> Inl e
      | Inr (pred, label) \<Rightarrow>
          test_batches env mdl clsfy batches
            (seen @ [(pred, if clsfy then to_int env label else to_float env label)]))"

definition test ::
  "('m, 'o, 'g, 't) env \<Rightarrow> 'm \<Rightarrow> ('t \<times> 't \<times> 't) list \<Rightarrow> (string \<times> metric_class) list \<Rightarrow> bool
    \<Rightarrow> exn + (string \<times> scalar) list" where
  "test env mdl data_generator metrics clsfy =
     (case test_batches env mdl clsfy data_generator [] of
        Inl e \<Rightarrow> Inl e
      | Inr seen \<Rightarrow>
          Inr (foldl (\<lambda>results (k, met_class). AList.update k (compute_metric env met_class seen) results)
                 [] metrics))"

definition wandb ::
  "('m, 'o, 'g, 't) env \<Rightarrow> 't wandb_call \<Rightarrow> ('m, 'o, 'g, 't) state
    \<Rightarrow> exn option \<times> ('m, 'o, 'g, 't) state" where
  "wandb env c s =
     (case wandb_raises env c of
        Some e \<Rightarrow> (Some e, s)
      | None \<Rightarrow> (None, s\<lparr>sink := sink s @ [c]\<rparr>))"

definition wandb_log ::
  "('m, 'o, 'g, 't) env \<Rightarrow> (string \<times> 't wval) list \<Rightarrow> bool \<Rightarrow> ('m, 'o, 'g, 't) state
    \<Rightarrow> exn option \<times> ('m, 'o, 'g, 't) state" where
  "wandb_log env m do_wandb s = (if do_wandb then wandb env (WandbLog m) s else (None, s))"

definition torch_save ::
  "('m, 'o, 'g, 't) env \<Rightarrow> string \<Rightarrow> 'm \<Rightarrow> ('m, 'o, 'g, 't) state
    \<Rightarrow> exn option \<times> ('m, 'o, 'g, 't) state" where
  "torch_save env path state_dict s =
     (case torch_save_raises env path of
        Some e \<Rightarrow> (Some e, s)
      | None \<Rightarrow> (None, s\<lparr>calls := calls s @ [TorchSave path state_dict]\<rparr>))"

definition log_artifact ::
  "('m, 'o, 'g, 't) env \<Rightarrow> config \<Rightarrow> bool \<Rightarrow> string \<Rightarrow> ('m, 'o, 'g, 't) state
    \<Rightarrow> exn option \<times> ('m, 'o, 'g, 't) state" where
  "log_artifact env cfg do_wandb path s =
     (if do_wandb \<and> wandb_save cfg
      then wandb env (WandbLogArtifact (''dti-'' @ experiment_id cfg) path) s
      else (None, s))"

subsection \<open>The epoch loop of main\<close>

text \<open>
  Lines 376 to 396, one supervised batch: prediction, loss, the sink, then
  \<^verbatim>\<open>opt.zero_grad(); loss.backward(); opt.step()\<close>.
\<close>

definition train_batch ::
  "('m, 'o, 'g, 't) env \<Rightarrow> config \<Rightarrow> bool \<Rightarrow> nat \<Rightarrow> nat \<times> ('t \<times> 't \<times> 't)
    \<Rightarrow> ('m, 'o, 'g, 't) state \<Rightarrow> exn option \<times> ('m, 'o, 'g, 't) state" where
  "train_batch env cfg do_wandb e ib s =
     (case ib of (i, batch) \<Rightarrow>
        (case step env True (model s) batch of
           Inl x \<Rightarrow> (Some x, s)
         | Inr (pred, label) \<Rightarrow>
             (case loss_fct env pred label of
                Inl x \<Rightarrow> (Some x, s)
              | Inr l \<Rightarrow>
                  (case wandb_log env
                          [(''train/step'',
                             WInt (int e * int (length (training_generator env)) * batch_size cfg
                                   + int i * batch_size cfg)),
                           (''train/loss'', WTensor l)]
                          do_wandb (s\<lparr>loss := Some l\<rparr>) of
                     (Some x, s1) \<Rightarrow> (Some x, s1)
                   | (None, s1) \<Rightarrow>
                       (case backward_step env (opt s1) (model s1) l of
                          Inl x \<Rightarrow> (Some x, s1)
                        | Inr (opt', model') \<Rightarrow>
                            (None, s1\<lparr>opt := opt', model := model',
                                       calls := calls s1 @ [OptStep e i]\<rparr>))))))"

text \<open>
  Lines 398 to 410: the supervised schedule advances once, after the batch loop; the log
  line that follows formats \<^verbatim>\<open>loss\<close>, which is unbound when no batch has ever run.
\<close>

definition lr_epoch_end ::
  "('m, 'o, 'g, 't) env \<Rightarrow> bool \<Rightarrow> nat \<Rightarrow> ('m, 'o, 'g, 't) state
    \<Rightarrow> exn option \<times> ('m, 'o, 'g, 't) state" where
  "lr_epoch_end env do_wandb e s =
     (let s1 = s\<lparr>opt := scheduler_step env (opt s), calls := calls s @ [LrSchedulerStep e]\<rparr>
      in case wandb_log env
                [(''epoch'', WInt (int e)), (''train/lr'', WReal (get_lr env (opt s1)))]
                do_wandb s1 of
           (Some x, s2) \<Rightarrow> (Some x, s2)
         | (None, s2) \<Rightarrow>
             (case loss s2 of
                None \<Rightarrow> (Some (UnboundLocalError ''loss''), s2)
              | Some l \<Rightarrow> (None, s2)))"

definition supervised_pass ::
  "('m, 'o, 'g, 't) env \<Rightarrow> config \<Rightarrow> bool \<Rightarrow> nat \<Rightarrow> ('m, 'o, 'g, 't) state
    \<Rightarrow> exn option \<times> ('m, 'o, 'g, 't) state" where
  "supervised_pass env cfg do_wandb e =
     seq (for_each (train_batch env cfg do_wandb e) (enumerate 0 (training_generator env)))
         (lr_epoch_end env do_wandb e)"

text \<open>Lines 415 to 443, one contrastive batch.\<close>

definition contrastive_batch ::
  "('m, 'o, 'g, 't) env \<Rightarrow> config \<Rightarrow> bool \<Rightarrow> nat \<Rightarrow> nat \<times> ('t \<times> 't \<times> 't)
    \<Rightarrow> ('m, 'o, 'g, 't) state \<Rightarrow> exn option \<times> ('m, 'o, 'g, 't) state" where
  "contrastive_batch env cfg do_wandb e ib s =
     (case ib of (i, batch) \<Rightarrow>
        (case contrastive_step env (model s) batch of
           Inl x \<Rightarrow> (Some x, s)
         | Inr (anchor, positive, negative) \<Rightarrow>
             (case triplet_loss env (contrastive_loss_fct s) anchor positive negative of
                Inl x \<Rightarrow> (Some x, s)
              | Inr l \<Rightarrow>
                  (case wandb_log env
                          [(''train/c_step'',
                             WInt (int e * int (length (training_generator env))
                                     * contrastive_batch_size cfg
                                   + int i * contrastive_batch_size cfg)),
                           (''train/c_loss'', WTensor l)]
                          do_wandb (s\<lparr>contrastive_loss := Some l\<rparr>) of
                     (Some x, s1) \<Rightarrow> (Some x, s1)
                   | (None, s1) \<Rightarrow>
                       (case backward_step env (opt_contrastive s1) (model s1) l of
                          Inl x \<Rightarrow> (Some x, s1)
                        | Inr (opt', model') \<Rightarrow>
                            (None, s1\<lparr>opt_contrastive := opt', model := model',
                                       calls := calls s1 @ [OptContrastiveStep e i]\<rparr>))))))"

text \<open>
  Lines 445 to 465: after the contrastive batch loop the margin scheduler and then the
  contrastive schedule advance once; the log line formats \<^verbatim>\<open>contrastive_loss\<close>.
\<close>

definition contrastive_epoch_end ::
  "('m, 'o, 'g, 't) env \<Rightarrow> bool \<Rightarrow> nat \<Rightarrow> ('m, 'o, 'g, 't) state
    \<Rightarrow> exn option \<times> ('m, 'o, 'g, 't) state" where
  "contrastive_epoch_end env do_wandb e s =
     (let s1 = s\<lparr>contrastive_loss_fct := margin_step env (contrastive_loss_fct s),
                 calls := calls s @ [MarginStep e]\<rparr>;
          s2 = s1\<lparr>opt_contrastive := scheduler_step env (opt_contrastive s1),
                  calls := calls s1 @ [LrSchedulerContrastiveStep e]\<rparr>
      in case wandb_log env
                [(''epoch'', WInt (int e)),
                 (''train/triplet_margin'', WReal (margin_of env (contrastive_loss_fct s2))),
                 (''train/contrastive_lr'', WList [get_lr env (opt_contrastive s2)])]
                do_wandb s2 of
           (Some x, s3) \<Rightarrow> (Some x, s3)
         | (None, s3) \<Rightarrow>
             (case contrastive_loss s3 of
                None \<Rightarrow> (Some (UnboundLocalError ''contrastive_loss''), s3)
              | Some l \<Rightarrow> (None, s3)))"

definition contrastive_pass ::
  "('m, 'o, 'g, 't) env \<Rightarrow> config \<Rightarrow> bool \<Rightarrow> nat \<Rightarrow> ('m, 'o, 'g, 't) state
    \<Rightarrow> exn option \<times> ('m, 'o, 'g, 't) state" where
  "contrastive_pass env cfg do_wandb e s =
     (if contrastive cfg
      then seq (for_each (contrastive_batch env cfg do_wandb e)
                  (enumerate 0 (contrastive_generator env)))
               (contrastive_epoch_end env do_wandb e) s
      else (None, s))"

text \<open>
  Lines 488 to 508, the improving branch: the snapshot and the best value are assigned,
  then the snapshot is saved under the per-epoch path and, with the sink, logged as an
  artifact. \<^verbatim>\<open>copy.deepcopy(model)\<close> is the value of the model at that moment: later
  training steps produce new values and leave it alone.
\<close>

definition checkpoint ::
  "('m, 'o, 'g, 't) env \<Rightarrow> config \<Rightarrow> bool \<Rightarrow> nat \<Rightarrow> scalar \<Rightarrow> ('m, 'o, 'g, 't) state
    \<Rightarrow> exn option \<times> ('m, 'o, 'g, 't) state" where
  "checkpoint env cfg do_wandb e v s =
     (let s1 = s\<lparr>model_max := model s, max_metric := v\<rparr>;
          model_save_path = epoch_save_path cfg e
      in case torch_save env model_save_path (model_max s1) s1 of
           (Some x, s2) \<Rightarrow> (Some x, s2)
         | (None, s2) \<Rightarrow>
             log_artifact env cfg do_wandb model_save_path
               (s2\<lparr>logged := logged s2 @ [LogCheckpoint model_save_path]\<rparr>))"

text \<open>
  Lines 470 to 513. The remainder \<^verbatim>\<open>epo % config.every_n_val\<close> raises on a zero
  divisor; for a nonzero one Python's remainder is \<open>mod\<close> on \<open>int\<close>. The dictionary
  \<^verbatim>\<open>val_results\<close> holds the metrics, the epoch and the epoch time.
\<close>

definition epoch_val_results ::
  "('m, 'o, 'g, 't) env \<Rightarrow> config \<Rightarrow> nat \<Rightarrow> (string \<times> scalar) list \<Rightarrow> (string \<times> scalar) list" where
  "epoch_val_results env cfg e results =
     AList.update ''Charts/epoch_time''
       (Number (epoch_time env e / real_of_int (every_n_val cfg)))
       (AList.update ''epoch'' (Number (real e)) results)"

definition validation ::
  "('m, 'o, 'g, 't) env \<Rightarrow> config \<Rightarrow> bool \<Rightarrow> nat \<Rightarrow> ('m, 'o, 'g, 't) state
    \<Rightarrow> exn option \<times> ('m, 'o, 'g, 't) state" where
  "validation env cfg do_wandb e s =
     (if every_n_val cfg = 0 then (Some ZeroDivisionError, s)
      else if int e mod every_n_val cfg = 0 then
        (case test env (model s) (validation_generator env) (val_metrics cfg) (classify cfg) of
           Inl x \<Rightarrow> (Some x, s)
         | Inr results \<Rightarrow>
             (let val_results = epoch_val_results env cfg e results;
                  s1 = s\<lparr>calls := calls s @ [Test (Validation e) (model s) results]\<rparr>
              in case wandb_log env (map (\<lambda>(k, v). (k, WScalar v)) val_results) do_wandb s1 of
                   (Some x, s2) \<Rightarrow> (Some x, s2)
                 | (None, s2) \<Rightarrow>
                     (case map_of val_results (watch_metric cfg) of
                        None \<Rightarrow> (Some (KeyError (watch_metric cfg)), s2)
                      | Some v \<Rightarrow>
                          if exceeds v (max_metric s2) then checkpoint env cfg do_wandb e v s2
                          else (None, s2))))
      else (None, s))"

definition epoch ::
  "('m, 'o, 'g, 't) env \<Rightarrow> config \<Rightarrow> bool \<Rightarrow> nat \<Rightarrow> ('m, 'o, 'g, 't) state
    \<Rightarrow> exn option \<times> ('m, 'o, 'g, 't) state" where
  "epoch env cfg do_wandb e s =
     seq (supervised_pass env cfg do_wandb e)
         (seq (contrastive_pass env cfg do_wandb e) (validation env cfg do_wandb e))
       (s\<lparr>epo := Some e\<rparr>)"

definition epoch_loop ::
  "('m, 'o, 'g, 't) env \<Rightarrow> config \<Rightarrow> bool \<Rightarrow> nat list \<Rightarrow> ('m, 'o, 'g, 't) state
    \<Rightarrow> exn option \<times> ('m, 'o, 'g, 't) state" where
  "epoch_loop env cfg do_wandb es = for_each (epoch env cfg do_wandb) es"

subsection \<open>The terminal test pass and main\<close>

text \<open>
  Lines 520 to 557, the body of the \<^verbatim>\<open>try\<close>: the best snapshot is evaluated on the test
  provider, the results go to the sink, and the snapshot is saved under the final path.
  \<^verbatim>\<open>epo\<close> is unbound when the loop ran no epoch.
\<close>

definition testing_body ::
  "('m, 'o, 'g, 't) env \<Rightarrow> config \<Rightarrow> bool \<Rightarrow> ('m, 'o, 'g, 't) state
    \<Rightarrow> exn option \<times> ('m, 'o, 'g, 't) state" where
  "testing_body env cfg do_wandb s =
     (case test env (model_max s) (testing_generator env) (test_metrics cfg) (classify cfg) of
        Inl x \<Rightarrow> (Some x, s)
      | Inr results \<Rightarrow>
          (let s1 = s\<lparr>calls := calls s @ [Test Testing (model_max s) results]\<rparr>
           in case epo s1 of
                None \<Rightarrow> (Some (UnboundLocalError ''epo''), s1)
              | Some e \<Rightarrow>
                  (let test_results =
                         AList.update ''Charts/wall_clock_time'' (Number (wall_clock_time env))
                           (AList.update ''test/eval_time'' (Number (eval_time env))
                              (AList.update ''epoch'' (Number (real (e + 1))) results));
                       model_save_path = final_save_path cfg
                   in seq (wandb_log env (map (\<lambda>(k, v). (k, WScalar v)) test_results) do_wandb)
                        (seq (torch_save env model_save_path (model_max s1))
                           (\<lambda>s2. log_artifact env cfg do_wandb model_save_path
                                   (s2\<lparr>logged := logged s2 @ [LogFinal model_save_path]\<rparr>)))
                        s1)))"

text \<open>Lines 519 to 560: the \<^verbatim>\<open>try\<close> with its handler, which logs the exception.\<close>

definition testing ::
  "('m, 'o, 'g, 't) env \<Rightarrow> config \<Rightarrow> bool \<Rightarrow> ('m, 'o, 'g, 't) state \<Rightarrow> ('m, 'o, 'g, 't) state" where
  "testing env cfg do_wandb s =
     (case testing_body env cfg do_wandb s of
        (None, s1) \<Rightarrow> s1
      | (Some x, s1) \<Rightarrow> s1\<lparr>logged := logged s1 @ [LogError x]\<rparr>)"

text \<open>Lines 352 to 361: the sink is present when the configuration has \<^verbatim>\<open>wandb_proj\<close>.\<close>

definition wandb_init ::
  "('m, 'o, 'g, 't) env \<Rightarrow> config \<Rightarrow> ('m, 'o, 'g, 't) state
    \<Rightarrow> exn option \<times> ('m, 'o, 'g, 't) state" where
  "wandb_init env cfg s =
     (case wandb_proj cfg of
        None \<Rightarrow> (None, s)
      | Some proj \<Rightarrow> seq (wandb env (WandbInit proj (experiment_id cfg))) (wandb env WandbWatch) s)"

text \<open>
  The epoch loop of lines 371 to 513 from the state the set-up leaves, under the resolved
  configuration.
\<close>

definition training ::
  "('m, 'o, 'g, 't) env \<Rightarrow> config \<Rightarrow> exn option \<times> ('m, 'o, 'g, 't) state" where
  "training env cfg0 =
     (let cfg = fst (resolve_task (enzpred_dataset_list env) cfg0);
          do_wandb = (wandb_proj cfg \<noteq> None)
      in seq (wandb_init env cfg) (epoch_loop env cfg do_wandb [0..<nat (epochs cfg)])
           (initial_state env))"

text \<open>
  \<^verbatim>\<open>main\<close> from line 213 on: an exception of the set-up or of the epoch loop leaves
  \<^verbatim>\<open>main\<close>; otherwise the terminal pass runs and \<^verbatim>\<open>model_max\<close> is returned. The second
  component is the state at that moment.
\<close>

definition main ::
  "('m, 'o, 'g, 't) env \<Rightarrow> config \<Rightarrow> (exn + 'm) \<times> ('m, 'o, 'g, 't) state" where
  "main env cfg0 =
     (let cfg = fst (resolve_task (enzpred_dataset_list env) cfg0);
          do_wandb = (wandb_proj cfg \<noteq> None)
      in case training env cfg0 of
           (Some x, s) \<Rightarrow> (Inl x, s)
         | (None, s) \<Rightarrow>
             (let s1 = testing env cfg do_wandb s in (Inr (model_max s1), s1)))"

subsection \<open>Reading the calls of a run\<close>

text \<open>The epochs whose validation pass ran, in order.\<close>

fun validated_epochs :: "'m call list \<Rightarrow> nat list" where
  "validated_epochs [] = []"
| "validated_epochs (Test (Validation e) m r # cs) = e # validated_epochs cs"
| "validated_epochs (c # cs) = validated_epochs cs"

text \<open>The validation passes that ran: the epoch, the model evaluated and the metrics computed.\<close>

fun val_runs :: "'m call list \<Rightarrow> (nat \<times> 'm \<times> (string \<times> scalar) list) list" where
  "val_runs [] = []"
| "val_runs (Test (Validation e) m r # cs) = (e, m, r) # val_runs cs"
| "val_runs (c # cs) = val_runs cs"

text \<open>
  The validation passes executed so far: the model each pass evaluated and the value the
  pass computed for the watched metric.
\<close>

fun val_passes :: "string \<Rightarrow> 'm call list \<Rightarrow> ('m \<times> scalar) list" where
  "val_passes w [] = []"
| "val_passes w (Test (Validation e) m r # cs) =
     (case map_of r w of None \<Rightarrow> val_passes w cs | Some v \<Rightarrow> (m, v) # val_passes w cs)"
| "val_passes w (c # cs) = val_passes w cs"

text \<open>The snapshots written by \<^verbatim>\<open>torch.save\<close>, in order.\<close>

fun saved :: "'m call list \<Rightarrow> (string \<times> 'm) list" where
  "saved [] = []"
| "saved (TorchSave path m # cs) = (path, m) # saved cs"
| "saved (c # cs) = saved cs"

text \<open>The calls on the two optimizers, their schedulers and the margin scheduler.\<close>

fun is_update :: "'m call \<Rightarrow> bool" where
  "is_update (Test sp m r) = False"
| "is_update (TorchSave path m) = False"
| "is_update c = True"

text \<open>
  What the specification prescribes for one epoch: one supervised step per batch, the
  supervised schedule once, then, with contrastive training, one contrastive step per
  batch, the margin scheduler once and the contrastive schedule once.
\<close>

definition epoch_updates :: "('m, 'o, 'g, 't) env \<Rightarrow> config \<Rightarrow> nat \<Rightarrow> 'm call list" where
  "epoch_updates env cfg e =
     map (OptStep e) [0..<length (training_generator env)] @ [LrSchedulerStep e] @
     (if contrastive cfg
      then map (OptContrastiveStep e) [0..<length (contrastive_generator env)] @
           [MarginStep e, LrSchedulerContrastiveStep e]
      else [])"

subsection \<open>What the specification prescribes for the parameters\<close>

text \<open>
  One full pass over the supervised provider: one optimizer step per batch, in the order
  of the provider, each step on the model and the optimizer the previous step left.
\<close>

fun supervised_steps ::
  "('m, 'o, 'g, 't) env \<Rightarrow> 'o \<Rightarrow> 'm \<Rightarrow> ('t \<times> 't \<times> 't) list \<Rightarrow> exn + 'o \<times> 'm" where
  "supervised_steps env optimizer mdl [] = Inr (optimizer, mdl)"
| "supervised_steps env optimizer mdl (batch # batches) =
     (case step env True mdl batch of
        Inl x \<Rightarrow> Inl x
      | Inr (pred, label) \<Rightarrow>
          (case loss_fct env pred label of
             Inl x \<Rightarrow> Inl x
           | Inr l \<Rightarrow>
               (case backward_step env optimizer mdl l of
                  Inl x \<Rightarrow> Inl x
                | Inr (optimizer', mdl') \<Rightarrow> supervised_steps env optimizer' mdl' batches)))"

text \<open>
  One full pass over the contrastive provider, with the contrastive optimizer and the
  margin the scheduler holds during the pass.
\<close>

fun contrastive_steps ::
  "('m, 'o, 'g, 't) env \<Rightarrow> 'g \<Rightarrow> 'o \<Rightarrow> 'm \<Rightarrow> ('t \<times> 't \<times> 't) list \<Rightarrow> exn + 'o \<times> 'm" where
  "contrastive_steps env g optimizer mdl [] = Inr (optimizer, mdl)"
| "contrastive_steps env g optimizer mdl (batch # batches) =
     (case contrastive_step env mdl batch of
        Inl x \<Rightarrow> Inl x
      | Inr (anchor, positive, negative) \<Rightarrow>
          (case triplet_loss env g anchor positive negative of
             Inl x \<Rightarrow> Inl x
           | Inr l \<Rightarrow>
               (case backward_step env optimizer mdl l of
                  Inl x \<Rightarrow> Inl x
                | Inr (optimizer', mdl') \<Rightarrow> contrastive_steps env g optimizer' mdl' batches)))"

text \<open>
  One epoch on the supervised optimizer, the contrastive optimizer, the margin scheduler
  and the model: the supervised pass in full, then, with contrastive training, the
  contrastive pass in full on the model the supervised pass left; each schedule advanced
  once, on the optimizer its pass left, and the margin scheduler once, after the
  contrastive pass. A run prescribes one such epoch after the other.
\<close>

fun epoch_params ::
  "('m, 'o, 'g, 't) env \<Rightarrow> config \<Rightarrow> 'o \<times> 'o \<times> 'g \<times> 'm \<Rightarrow> exn + 'o \<times> 'o \<times> 'g \<times> 'm" where
  "epoch_params env cfg (optimizer, optimizer_contrastive, g, mdl) =
     (case supervised_steps env optimizer mdl (training_generator env) of
        Inl x \<Rightarrow> Inl x
      | Inr (optimizer1, mdl1) \<Rightarrow>
          if contrastive cfg
          then (case contrastive_steps env g optimizer_contrastive mdl1
                       (contrastive_generator env) of
                  Inl x \<Rightarrow> Inl x
                | Inr (optimizer2, mdl2) \<Rightarrow>
                    Inr (scheduler_step env optimizer1, scheduler_step env optimizer2,
                         margin_step env g, mdl2))
          else Inr (scheduler_step env optimizer1, optimizer_contrastive, g, mdl1))"

fun run_params ::
  "('m, 'o, 'g, 't) env \<Rightarrow> config \<Rightarrow> nat \<Rightarrow> 'o \<times> 'o \<times> 'g \<times> 'm \<Rightarrow> exn + 'o \<times> 'o \<times> 'g \<times> 'm" where
  "run_params env cfg 0 p = Inr p"
| "run_params env cfg (Suc n) p =
     (case epoch_params env cfg p of Inl x \<Rightarrow> Inl x | Inr p' \<Rightarrow> run_params env cfg n p')"

subsection \<open>The margin scheduler\<close>

text \<open>
  Modelled from the spec: the class \<^verbatim>\<open>MarginScheduledLossFunction\<close> of
  \<^verbatim>\<open>src/margin.py\<close>, which is imported by \<^verbatim>\<open>train_DTI.py\<close> and is not among the
  source files. The specification describes a state indexed by the epoch count, a
  transition \<^verbatim>\<open>step\<close> and three policies: linear decay to zero by the final epoch,
  cosine decay with restarts every \<open>N_restart\<close> epochs, and constant; the schedule is a
  function of the epoch index, the maximum, \<open>N_epoch\<close>, \<open>N_restart\<close> and the policy.
  The quotients are those of the reals, so the model is meant for positive periods.
\<close>

datatype schedule_kind = LinearDecay | CosineRestarts | Constant

record MarginState =
  current_margin :: real
  epoch_index :: nat
  restart_period :: nat
  max_margin :: real
  n_epoch :: nat
  policy :: schedule_kind

definition schedule :: "schedule_kind \<Rightarrow> real \<Rightarrow> nat \<Rightarrow> nat \<Rightarrow> nat \<Rightarrow> real" where
  "schedule kind M N_epoch N_restart e =
     (case kind of
        Constant \<Rightarrow> M
      | LinearDecay \<Rightarrow> M * (1 - real e / real N_epoch)
      | CosineRestarts \<Rightarrow> M * (1 + cos (pi * real (e mod N_restart) / real N_restart)) / 2)"

definition margin_init :: "real \<Rightarrow> nat \<Rightarrow> nat \<Rightarrow> schedule_kind \<Rightarrow> MarginState" where
  "margin_init M_0 N_epoch N_restart update_fn =
     \<lparr>current_margin = M_0, epoch_index = 0, restart_period = N_restart,
      max_margin = M_0, n_epoch = N_epoch, policy = update_fn\<rparr>"

definition margin_scheduler_step :: "MarginState \<Rightarrow> MarginState" where
  "margin_scheduler_step g =
     (let e = epoch_index g + 1
      in g\<lparr>epoch_index := e,
           current_margin := schedule (policy g) (max_margin g) (n_epoch g) (restart_period g) e\<rparr>)"

subsection \<open>A small concrete run\<close>

text \<open>
  An environment over the naturals: the model is the number of optimizer steps applied to
  it, a prediction is the model that made it, and every metric of a pass is a given
  function of the first prediction. An optimizer step adds 1 to its optimizer, a scheduler
  step adds 100. One supervised batch and two contrastive batches per epoch; no external
  call raises. The margin scheduler is a parameter.
\<close>

definition generic_env ::
  "'g \<Rightarrow> ('g \<Rightarrow> 'g) \<Rightarrow> ('g \<Rightarrow> real) \<Rightarrow> (nat \<Rightarrow> scalar) \<Rightarrow> (nat, nat, 'g, nat) env" where
  "generic_env g0 g_step g_margin score =
     \<lparr>enzpred_dataset_list = [''halogenase''],
      training_generator = [(1, 2, 3)],
      validation_generator = [(4, 5, 6)],
      testing_generator = [(7, 8, 9)],
      contrastive_generator = [(1, 2, 3), (4, 5, 6)],
      initial_model = 0, initial_opt = 0, initial_opt_contrastive = 0,
      initial_margin_loss = g0,
      forward = (\<lambda>training m drug target. Inr m),
      target_projector = (\<lambda>m x. Inr x),
      drug_projector = (\<lambda>m x. Inr x),
      to_float = (\<lambda>x. x), to_int = (\<lambda>x. x),
      loss_fct = (\<lambda>pred label. Inr (pred + label)),
      triplet_loss = (\<lambda>g a p n. Inr (a + p + n)),
      margin_step = g_step,
      margin_of = g_margin,
      backward_step = (\<lambda>opt m l. Inr (Suc opt, Suc m)),
      scheduler_step = (\<lambda>opt. opt + 100),
      get_lr = (\<lambda>opt. 1 / (1 + real opt)),
      compute_metric =
        (\<lambda>c seen. case seen of [] \<Rightarrow> Number 0 | (pred, label) # rest \<Rightarrow> score pred),
      torch_save_raises = (\<lambda>path. None),
      wandb_raises = (\<lambda>c. None),
      epoch_time = (\<lambda>e. 1), eval_time = 1, wall_clock_time = 3\<rparr>"

text \<open>With a counter for the margin scheduler.\<close>

definition example_env :: "(nat \<Rightarrow> scalar) \<Rightarrow> (nat, nat, nat, nat) env" where
  "example_env score = generic_env 0 Suc (\<lambda>g. 1 / (1 + real g)) score"

text \<open>With the margin scheduler of the specification: linear decay from 1/4 over 3 epochs.\<close>

definition margin_env :: "(nat, nat, MarginState, nat) env" where
  "margin_env =
     generic_env (margin_init (1 / 4) 3 10 LinearDecay) margin_scheduler_step current_margin
       (\<lambda>m. Number (1 / 2))"

definition example_config :: config where
  "example_config =
     \<lparr>task = ''davis'', watch_metric = ''val/loss'', classify = False, contrastive = False,
      epochs = 3, every_n_val = 1, batch_size = 32, contrastive_batch_size = 16,
      experiment_id = ''exp'', model_save_dir = None, wandb_proj = None, wandb_save = True\<rparr>"

text \<open>The watched values 0.61, 0.74, 0.68 of the models after one, two and three steps.\<close>

definition happy_score :: "nat \<Rightarrow> scalar" where
  "happy_score m =
     (if m = 1 then Number (61 / 100) else if m = 2 then Number (74 / 100)
      else Number (68 / 100))"

text \<open>A regression run whose Pearson correlation stays negative: -0.5, then -0.25.\<close>

definition negative_score :: "nat \<Rightarrow> scalar" where
  "negative_score m = (if m = 1 then Number (- 1 / 2) else Number (- 1 / 4))"

definition regression_config :: config where
  "regression_config = example_config\<lparr>task := ''dti_dg'', epochs := 2\<rparr>"

text \<open>The final snapshot cannot be written.\<close>

definition full_disk_env :: "(nat, nat, nat, nat) env" where
  "full_disk_env =
     (example_env happy_score)
       \<lparr>torch_save_raises :=
          (\<lambda>path. if path = ''./exp_best_model.pt'' then Some (Raised ''disk full'') else None)\<rparr>"

text \<open>The supervised loss fails on the predictions of the model after one step.\<close>

definition nan_env :: "(nat, nat, nat, nat) env" where
  "nan_env =
     (example_env happy_score)
       \<lparr>loss_fct :=
          (\<lambda>pred label. if pred = 1 then Inl (Raised ''nan'') else Inr (pred + label))\<rparr>"



section \<open>Properties\<close>

subsection \<open>Sequencing and the readings of the calls\<close>

lemma seq_cases:
  assumes "seq f g s = (r, s')"
  obtains (first) x where "f s = (Some x, s')" "r = Some x"
        | (second) s1 where "f s = (None, s1)" "g s1 = (r, s')"
  using assms by (auto simp: seq_def split: prod.splits option.splits)

lemma for_each_append:
  "for_each body (xs @ ys) s = seq (for_each body xs) (for_each body ys) s"
  by (induction xs arbitrary: s) (auto simp: seq_def split: prod.splits option.splits)

lemma validated_epochs_append:
  "validated_epochs (cs @ ds) = validated_epochs cs @ validated_epochs ds"
  by (induction cs rule: validated_epochs.induct) auto

lemma val_passes_append: "val_passes w (cs @ ds) = val_passes w cs @ val_passes w ds"
  by (induction w cs rule: val_passes.induct) (auto split: option.splits)

lemma saved_append: "saved (cs @ ds) = saved cs @ saved ds"
  by (induction cs rule: saved.induct) auto

lemma updates_read:
  "list_all is_update cs \<Longrightarrow>
     validated_epochs cs = [] \<and> val_passes w cs = [] \<and> saved cs = [] \<and> filter is_update cs = cs"
  by (induction cs rule: saved.induct) auto

lemma val_runs_append: "val_runs (cs @ ds) = val_runs cs @ val_runs ds"
  by (induction cs rule: val_runs.induct) auto

lemma val_runs_updates: "list_all is_update cs \<Longrightarrow> val_runs cs = []"
  by (induction cs rule: val_runs.induct) auto

lemma passes_read:
  assumes "calls s1 = calls s @ cs" and "list_all is_update cs"
  shows "val_runs (calls s1) = val_runs (calls s) \<and> saved (calls s1) = saved (calls s)"
  using assms by (simp add: val_runs_append saved_append val_runs_updates updates_read)

subsection \<open>The passes of an epoch\<close>

lemma train_batch_effect:
  assumes "train_batch env cfg w e (i, b) s = (r, s')"
  shows "max_metric s' = max_metric s \<and> model_max s' = model_max s \<and> epo s' = epo s
       \<and> logged s' = logged s \<and> contrastive_loss s' = contrastive_loss s
       \<and> calls s' = calls s @ (if r = None then [OptStep e i] else [])
       \<and> (r = None \<longrightarrow> loss s' \<noteq> None)"
  using assms
  by (auto simp: train_batch_def wandb_log_def wandb_def split: sum.splits prod.splits option.splits if_splits)

lemma contrastive_batch_effect:
  assumes "contrastive_batch env cfg w e (i, b) s = (r, s')"
  shows "max_metric s' = max_metric s \<and> model_max s' = model_max s \<and> epo s' = epo s
       \<and> logged s' = logged s \<and> (loss s \<noteq> None \<longrightarrow> loss s' \<noteq> None)
       \<and> calls s' = calls s @ (if r = None then [OptContrastiveStep e i] else [])"
  using assms
  by (auto simp: contrastive_batch_def wandb_log_def wandb_def split: sum.splits prod.splits option.splits if_splits)

lemma train_loop_effect:
  assumes "for_each (train_batch env cfg w e) (enumerate n xs) s = (r, s')"
  shows "max_metric s' = max_metric s \<and> model_max s' = model_max s \<and> epo s' = epo s
       \<and> logged s' = logged s \<and> contrastive_loss s' = contrastive_loss s
       \<and> (\<exists>k\<le>length xs. calls s' = calls s @ map (OptStep e) [n..<n + k]
                \<and> (r = None \<longrightarrow> k = length xs))"
  using assms
proof (induction xs arbitrary: n s)
  case Nil
  then show ?case by simp
next
  case (Cons b xs)
  obtain r1 s1 where b: "train_batch env cfg w e (n, b) s = (r1, s1)"
    by (cases "train_batch env cfg w e (n, b) s")
  note eff = train_batch_effect[OF b]
  show ?case
  proof (cases r1)
    case None
    with Cons.prems b have rest: "for_each (train_batch env cfg w e) (enumerate (Suc n) xs) s1 = (r, s')"
      by simp
    from Cons.IH[OF rest] obtain k where k: "k \<le> length xs"
      "calls s' = calls s1 @ map (OptStep e) [Suc n..<Suc n + k]" "r = None \<longrightarrow> k = length xs"
      by blast
    have u: "[n..<n + Suc k] = n # [Suc n..<Suc n + k]"
      by (simp add: upt_conv_Cons)
    have "calls s' = calls s @ map (OptStep e) [n..<n + Suc k]"
      unfolding u using k(2) eff None by simp
    with k(1,3) Cons.IH[OF rest] eff show ?thesis
      by (intro conjI; (simp; fail)?) (rule exI[of _ "Suc k"], simp)
  next
    case (Some x)
    with Cons.prems b have "r = Some x" "s' = s1" by simp_all
    with eff Some show ?thesis
      by (intro conjI; (simp; fail)?) (rule exI[of _ 0], simp)
  qed
qed

lemma contrastive_loop_effect:
  assumes "for_each (contrastive_batch env cfg w e) (enumerate n xs) s = (r, s')"
  shows "max_metric s' = max_metric s \<and> model_max s' = model_max s \<and> epo s' = epo s
       \<and> logged s' = logged s \<and> (loss s \<noteq> None \<longrightarrow> loss s' \<noteq> None)
       \<and> (\<exists>k\<le>length xs. calls s' = calls s @ map (OptContrastiveStep e) [n..<n + k]
                \<and> (r = None \<longrightarrow> k = length xs))"
  using assms
proof (induction xs arbitrary: n s)
  case Nil
  then show ?case by simp
next
  case (Cons b xs)
  obtain r1 s1 where b: "contrastive_batch env cfg w e (n, b) s = (r1, s1)"
    by (cases "contrastive_batch env cfg w e (n, b) s")
  note eff = contrastive_batch_effect[OF b]
  show ?case
  proof (cases r1)
    case None
    with Cons.prems b
    have rest: "for_each (contrastive_batch env cfg w e) (enumerate (Suc n) xs) s1 = (r, s')"
      by simp
    from Cons.IH[OF rest] obtain k where k: "k \<le> length xs"
      "calls s' = calls s1 @ map (OptContrastiveStep e) [Suc n..<Suc n + k]"
      "r = None \<longrightarrow> k = length xs"
      by blast
    have u: "[n..<n + Suc k] = n # [Suc n..<Suc n + k]"
      by (simp add: upt_conv_Cons)
    have "calls s' = calls s @ map (OptContrastiveStep e) [n..<n + Suc k]"
      unfolding u using k(2) eff None by simp
    with k(1,3) Cons.IH[OF rest] eff show ?thesis
      by (intro conjI; (simp; fail)?) (rule exI[of _ "Suc k"], simp)
  next
    case (Some x)
    with Cons.prems b have "r = Some x" "s' = s1" by simp_all
    with eff Some show ?thesis
      by (intro conjI; (simp; fail)?) (rule exI[of _ 0], simp)
  qed
qed

lemma lr_epoch_end_effect:
  assumes "lr_epoch_end env w e s = (r, s')"
  shows "max_metric s' = max_metric s \<and> model_max s' = model_max s \<and> epo s' = epo s
       \<and> logged s' = logged s \<and> loss s' = loss s
       \<and> calls s' = calls s @ [LrSchedulerStep e] \<and> (r = None \<longrightarrow> loss s' \<noteq> None)"
  using assms
  by (auto simp: lr_epoch_end_def Let_def wandb_log_def wandb_def
           split: prod.splits option.splits if_splits)

lemma contrastive_epoch_end_effect:
  assumes "contrastive_epoch_end env w e s = (r, s')"
  shows "max_metric s' = max_metric s \<and> model_max s' = model_max s \<and> epo s' = epo s
       \<and> logged s' = logged s \<and> loss s' = loss s
       \<and> calls s' = calls s @ [MarginStep e, LrSchedulerContrastiveStep e]"
  using assms
  by (auto simp: contrastive_epoch_end_def Let_def wandb_log_def wandb_def
           split: prod.splits option.splits if_splits)

lemma supervised_pass_effect:
  assumes "supervised_pass env cfg w e s = (r, s')"
  shows "max_metric s' = max_metric s \<and> model_max s' = model_max s \<and> epo s' = epo s
       \<and> logged s' = logged s
       \<and> (\<exists>cs. calls s' = calls s @ cs \<and> list_all is_update cs
              \<and> (r = None \<longrightarrow>
                    cs = map (OptStep e) [0..<length (training_generator env)] @ [LrSchedulerStep e]))"
  using assms unfolding supervised_pass_def
proof (cases rule: seq_cases)
  case (first x)
  from train_loop_effect[OF first(1)] first(2) show ?thesis
    by (auto simp: list_all_iff)
next
  case (second s1)
  from train_loop_effect[OF second(1)] lr_epoch_end_effect[OF second(2)] show ?thesis
    by (auto simp: list_all_iff)
qed

lemma contrastive_pass_effect:
  assumes "contrastive_pass env cfg w e s = (r, s')"
  shows "max_metric s' = max_metric s \<and> model_max s' = model_max s \<and> epo s' = epo s
       \<and> logged s' = logged s
       \<and> (\<exists>cs. calls s' = calls s @ cs \<and> list_all is_update cs
              \<and> (r = None \<longrightarrow>
                    cs = (if contrastive cfg
                          then map (OptContrastiveStep e) [0..<length (contrastive_generator env)] @
                               [MarginStep e, LrSchedulerContrastiveStep e]
                          else [])))"
proof (cases "contrastive cfg")
  case False
  with assms show ?thesis by (simp add: contrastive_pass_def)
next
  case True
  with assms have "seq (for_each (contrastive_batch env cfg w e)
                  (enumerate 0 (contrastive_generator env)))
               (contrastive_epoch_end env w e) s = (r, s')"
    by (simp add: contrastive_pass_def)
  then show ?thesis
  proof (cases rule: seq_cases)
    case (first x)
    from contrastive_loop_effect[OF first(1)] first(2) show ?thesis
      by (auto simp: list_all_iff)
  next
    case (second s1)
    from contrastive_loop_effect[OF second(1)] contrastive_epoch_end_effect[OF second(2)] True
    show ?thesis
      by (auto simp: list_all_iff)
  qed
qed

lemma train_batch_params:
  assumes "train_batch env cfg w e (i, b) s = (None, s1)"
  shows "\<exists>pred label l. step env True (model s) b = Inr (pred, label)
           \<and> loss_fct env pred label = Inr l
           \<and> backward_step env (opt s) (model s) l = Inr (opt s1, model s1)
           \<and> opt_contrastive s1 = opt_contrastive s
           \<and> contrastive_loss_fct s1 = contrastive_loss_fct s"
  using assms
  by (auto simp: train_batch_def wandb_log_def wandb_def
           split: sum.splits prod.splits option.splits if_splits)

lemma contrastive_batch_params:
  assumes "contrastive_batch env cfg w e (i, b) s = (None, s1)"
  shows "\<exists>anchor positive negative l.
             contrastive_step env (model s) b = Inr (anchor, positive, negative)
           \<and> triplet_loss env (contrastive_loss_fct s) anchor positive negative = Inr l
           \<and> backward_step env (opt_contrastive s) (model s) l = Inr (opt_contrastive s1, model s1)
           \<and> opt s1 = opt s
           \<and> contrastive_loss_fct s1 = contrastive_loss_fct s"
  using assms
  by (auto simp: contrastive_batch_def wandb_log_def wandb_def
           split: sum.splits prod.splits option.splits if_splits)

lemma train_loop_params:
  assumes "for_each (train_batch env cfg w e) (enumerate n xs) s = (None, s')"
  shows "supervised_steps env (opt s) (model s) xs = Inr (opt s', model s')
       \<and> opt_contrastive s' = opt_contrastive s
       \<and> contrastive_loss_fct s' = contrastive_loss_fct s"
  using assms
proof (induction xs arbitrary: n s)
  case Nil
  then show ?case by simp
next
  case (Cons b xs)
  from Cons.prems obtain s1 where
    b: "train_batch env cfg w e (n, b) s = (None, s1)" and
    rest: "for_each (train_batch env cfg w e) (enumerate (Suc n) xs) s1 = (None, s')"
    by (auto split: prod.splits option.splits)
  from train_batch_params[OF b] Cons.IH[OF rest] show ?case
    by auto
qed

lemma contrastive_loop_params:
  assumes "for_each (contrastive_batch env cfg w e) (enumerate n xs) s = (None, s')"
  shows "contrastive_steps env (contrastive_loss_fct s) (opt_contrastive s) (model s) xs
           = Inr (opt_contrastive s', model s')
       \<and> opt s' = opt s
       \<and> contrastive_loss_fct s' = contrastive_loss_fct s"
  using assms
proof (induction xs arbitrary: n s)
  case Nil
  then show ?case by simp
next
  case (Cons b xs)
  from Cons.prems obtain s1 where
    b: "contrastive_batch env cfg w e (n, b) s = (None, s1)" and
    rest: "for_each (contrastive_batch env cfg w e) (enumerate (Suc n) xs) s1 = (None, s')"
    by (auto split: prod.splits option.splits)
  from contrastive_batch_params[OF b] Cons.IH[OF rest] show ?case
    by auto
qed

lemma lr_epoch_end_params:
  assumes "lr_epoch_end env w e s = (r, s')"
  shows "opt s' = scheduler_step env (opt s) \<and> model s' = model s
       \<and> opt_contrastive s' = opt_contrastive s
       \<and> contrastive_loss_fct s' = contrastive_loss_fct s"
  using assms
  by (auto simp: lr_epoch_end_def Let_def wandb_log_def wandb_def
           split: prod.splits option.splits if_splits)

lemma contrastive_epoch_end_params:
  assumes "contrastive_epoch_end env w e s = (r, s')"
  shows "opt_contrastive s' = scheduler_step env (opt_contrastive s) \<and> model s' = model s
       \<and> opt s' = opt s
       \<and> contrastive_loss_fct s' = margin_step env (contrastive_loss_fct s)"
  using assms
  by (auto simp: contrastive_epoch_end_def Let_def wandb_log_def wandb_def
           split: prod.splits option.splits if_splits)

subsection \<open>The validation step\<close>

lemmas validation_defs = validation_def checkpoint_def torch_save_def log_artifact_def
  wandb_log_def wandb_def Let_def

lemma validation_skip:
  "every_n_val cfg \<noteq> 0 \<Longrightarrow> int e mod every_n_val cfg \<noteq> 0 \<Longrightarrow> validation env cfg w e s = (None, s)"
  by (simp add: validation_def)

lemma validation_effect:
  assumes "validation env cfg w e s = (r, s')"
  shows "epo s' = epo s \<and> model s' = model s
       \<and> filter is_update (calls s') = filter is_update (calls s)
       \<and> (r = None \<longrightarrow> every_n_val cfg \<noteq> 0 \<and>
             validated_epochs (calls s') =
               validated_epochs (calls s) @ (if int e mod every_n_val cfg = 0 then [e] else []))"
  using assms
  by (auto simp: validation_defs validated_epochs_append
           split: sum.splits prod.splits option.splits if_splits)

lemma validation_params:
  assumes "validation env cfg w e s = (r, s')"
  shows "opt s' = opt s \<and> opt_contrastive s' = opt_contrastive s \<and> model s' = model s
       \<and> contrastive_loss_fct s' = contrastive_loss_fct s"
  using assms
  by (auto simp: validation_defs split: sum.splits prod.splits option.splits if_splits)

lemma validation_runs:
  assumes "validation env cfg w e s = (None, s')"
  shows "every_n_val cfg \<noteq> 0 \<and>
         (if int e mod every_n_val cfg = 0
          then \<exists>results v.
                 test env (model s) (validation_generator env) (val_metrics cfg) (classify cfg)
                   = Inr results
               \<and> map_of (epoch_val_results env cfg e results) (watch_metric cfg) = Some v
               \<and> val_runs (calls s') = val_runs (calls s) @ [(e, model s, results)]
               \<and> model_max s' = (if exceeds v (max_metric s) then model s else model_max s)
               \<and> max_metric s' = (if exceeds v (max_metric s) then v else max_metric s)
               \<and> saved (calls s') =
                   saved (calls s)
                   @ (if exceeds v (max_metric s) then [(epoch_save_path cfg e, model s)] else [])
          else s' = s)"
  using assms
  by (auto simp: validation_defs val_runs_append saved_append
           split: sum.splits prod.splits option.splits if_splits)

lemma validation_pass:
  assumes "every_n_val cfg \<noteq> 0" and "int e mod every_n_val cfg = 0"
    and "validation env cfg w e t = (r, t')"
  shows "case test env (model t) (validation_generator env) (val_metrics cfg) (classify cfg) of
           Inl x \<Rightarrow> r = Some x \<and> t' = t
         | Inr results \<Rightarrow>
             (r = None \<longrightarrow>
               (\<exists>v. map_of (epoch_val_results env cfg e results) (watch_metric cfg) = Some v
                  \<and> t' = (if exceeds v (max_metric t)
                          then t\<lparr>model_max := model t, max_metric := v,
                                 calls := calls t @ [Test (Validation e) (model t) results,
                                                    TorchSave (epoch_save_path cfg e) (model t)],
                                 logged := logged t @ [LogCheckpoint (epoch_save_path cfg e)],
                                 sink := sink t'\<rparr>
                          else t\<lparr>calls := calls t @ [Test (Validation e) (model t) results],
                                 sink := sink t'\<rparr>)
                  \<and> sink t' =
                      (if w
                       then sink t
                            @ WandbLog (map (\<lambda>(k, v). (k, WScalar v))
                                          (epoch_val_results env cfg e results))
                            # (if exceeds v (max_metric t) \<and> wandb_save cfg
                               then [WandbLogArtifact (''dti-'' @ experiment_id cfg)
                                       (epoch_save_path cfg e)]
                               else [])
                       else sink t)))"
  using assms
  by (auto simp: validation_defs
           split: sum.splits prod.splits option.splits if_splits)

text \<open>
  Claim C3. When a validation pass computes a watched value that does not exceed the
  current best, the pass saves no snapshot and leaves \<^verbatim>\<open>model_max\<close>,
  \<^verbatim>\<open>max_metric\<close> and the log as they are: the state changes only by the recorded call of
  \<^verbatim>\<open>test\<close> and by the record the sink received, and the step raises nothing unless the
  sink does.
\<close>

theorem no_improvement:
  assumes "test env (model s) (validation_generator env) (val_metrics cfg) (classify cfg) = Inr results"
    and "map_of (epoch_val_results env cfg e results) (watch_metric cfg) = Some v"
    and "\<not> exceeds v (max_metric s)"
    and "every_n_val cfg \<noteq> 0" and "int e mod every_n_val cfg = 0"
    and "validation env cfg w e s = (r, s')"
    and "record = WandbLog (map (\<lambda>(k, v). (k, WScalar v)) (epoch_val_results env cfg e results))"
  shows "model_max s' = model_max s \<and> max_metric s' = max_metric s
       \<and> saved (calls s') = saved (calls s) \<and> logged s' = logged s
       \<and> r = (if w then wandb_raises env record else None)
       \<and> s' = s\<lparr>calls := calls s @ [Test (Validation e) (model s) results],
                  sink := (if w \<and> wandb_raises env record = None then sink s @ [record]
                           else sink s)\<rparr>"
  using assms
  by (auto simp: validation_defs saved_append
           split: sum.splits prod.splits option.splits if_splits)

theorem no_improvement_witness:
  "test (example_env happy_score) 2 (validation_generator (example_env happy_score))
        (val_metrics (fst (resolve_task [] example_config)))
        (classify (fst (resolve_task [] example_config)))
     = Inr [(''val/aupr'', Number (74 / 100)), (''val/auroc'', Number (74 / 100))]
   \<and> max_metric (snd (epoch_loop (example_env happy_score) (fst (resolve_task [] example_config))
                          False [0, 1] (initial_state (example_env happy_score)))) = Number (74 / 100)
   \<and> validation (example_env happy_score) (fst (resolve_task [] example_config)) False 2
        (snd (epoch_loop (example_env happy_score) (fst (resolve_task [] example_config))
                False [0, 1] (initial_state (example_env happy_score))))
     = (None,
        (snd (epoch_loop (example_env happy_score) (fst (resolve_task [] example_config))
                False [0, 1] (initial_state (example_env happy_score))))
        \<lparr>calls :=
            calls (snd (epoch_loop (example_env happy_score) (fst (resolve_task [] example_config))
                     False [0, 1] (initial_state (example_env happy_score))))
            @ [Test (Validation 2) 2 [(''val/aupr'', Number (74 / 100)), (''val/auroc'', Number (74 / 100))]]\<rparr>)"
proof -
  let ?E = "example_env happy_score"
  let ?R = "fst (resolve_task [] example_config)"
  let ?s = "snd (epoch_loop ?E ?R False [0, 1] (initial_state ?E))"
  let ?r = "[(''val/aupr'', Number (74 / 100)), (''val/auroc'', Number (74 / 100))]"
  have m: "model ?s = 2" by code_simp
  have t: "test ?E (model ?s) (validation_generator ?E) (val_metrics ?R) (classify ?R) = Inr ?r"
    by code_simp
  have v: "map_of (epoch_val_results ?E ?R 2 ?r) (watch_metric ?R) = Some (Number (74 / 100))"
    by code_simp
  have b: "\<not> exceeds (Number (74 / 100)) (max_metric ?s)" by code_simp
  have mx: "max_metric ?s = Number (74 / 100)" by code_simp
  have n: "every_n_val ?R \<noteq> 0" "int 2 mod every_n_val ?R = 0" by code_simp+
  have o: "validation ?E ?R False 2 ?s
             = (fst (validation ?E ?R False 2 ?s), snd (validation ?E ?R False 2 ?s))"
    by simp
  from no_improvement[OF t v b n o refl]
  have k: "fst (validation ?E ?R False 2 ?s) = None"
    "snd (validation ?E ?R False 2 ?s)
       = ?s\<lparr>calls := calls ?s @ [Test (Validation 2) (model ?s) ?r]\<rparr>"
    by simp_all
  have t2: "test ?E 2 (validation_generator ?E) (val_metrics ?R) (classify ?R) = Inr ?r"
    using t unfolding m .
  have "validation ?E ?R False 2 ?s
       = (None, ?s\<lparr>calls := calls ?s @ [Test (Validation 2) 2 ?r]\<rparr>)"
    using k unfolding m by (simp add: prod_eq_iff)
  with t2 mx show ?thesis by (intro conjI)
qed

subsection \<open>The epoch and the loop\<close>

lemma validation_calls:
  assumes "validation env cfg w e s = (r, s')"
  shows "\<exists>rest. calls s' = calls s @ rest \<and> list_all (\<lambda>c. \<not> is_update c) rest"
  using assms
  by (auto simp: validation_defs split: sum.splits prod.splits option.splits if_splits)

lemma epoch_calls:
  assumes "epoch env cfg w e s = (None, s')"
  shows "\<exists>rest. calls s' = calls s @ epoch_updates env cfg e @ rest
            \<and> list_all (\<lambda>c. \<not> is_update c) rest"
proof -
  from assms obtain s1 s2 where
    a: "supervised_pass env cfg w e (s\<lparr>epo := Some e\<rparr>) = (None, s1)" and
    b: "contrastive_pass env cfg w e s1 = (None, s2)" and
    c: "validation env cfg w e s2 = (None, s')"
    by (auto simp: epoch_def elim!: seq_cases)
  from supervised_pass_effect[OF a] contrastive_pass_effect[OF b] validation_calls[OF c]
  show ?thesis
    by (auto simp: epoch_updates_def)
qed

lemma epoch_effect:
  assumes "epoch env cfg w e s = (r, s')"
  shows "r = None \<longrightarrow> every_n_val cfg \<noteq> 0 \<and>
             validated_epochs (calls s') =
               validated_epochs (calls s) @ (if int e mod every_n_val cfg = 0 then [e] else [])"
proof -
  from assms have "seq (supervised_pass env cfg w e)
         (seq (contrastive_pass env cfg w e) (validation env cfg w e))
       (s\<lparr>epo := Some e\<rparr>) = (r, s')"
    by (simp add: epoch_def)
  then show ?thesis
  proof (cases rule: seq_cases)
    case (first x)
    from supervised_pass_effect[OF first(1)] first(2) show ?thesis by simp
  next
    case (second s1)
    note sup = supervised_pass_effect[OF second(1)]
    from second(2) show ?thesis
    proof (cases rule: seq_cases)
      case (first x)
      from contrastive_pass_effect[OF first(1)] first(2) sup show ?thesis by simp
    next
      case (second s2)
      from contrastive_pass_effect[OF second(1)] validation_effect[OF second(2)] sup
      show ?thesis
        by (auto simp: validated_epochs_append updates_read)
    qed
  qed
qed

lemma epoch_loop_validated:
  assumes "epoch_loop env cfg w es s = (None, s')" and "every_n_val cfg \<noteq> 0"
  shows "validated_epochs (calls s') =
           validated_epochs (calls s) @ filter (\<lambda>e. int e mod every_n_val cfg = 0) es"
  using assms
proof (induction es arbitrary: s)
  case Nil
  then show ?case by (simp add: epoch_loop_def)
next
  case (Cons e es)
  from Cons.prems(1) obtain s1 where
    e: "epoch env cfg w e s = (None, s1)" and rest: "epoch_loop env cfg w es s1 = (None, s')"
    by (auto simp: epoch_loop_def split: prod.splits option.splits)
  from epoch_effect[OF e] Cons.IH[OF rest Cons.prems(2)] show ?case by simp
qed

lemma epoch_loop_updates:
  assumes "epoch_loop env cfg w es s = (None, s')"
  shows "filter is_update (calls s') =
           filter is_update (calls s) @ concat (map (epoch_updates env cfg) es)"
  using assms
proof (induction es arbitrary: s)
  case Nil
  then show ?case by (simp add: epoch_loop_def)
next
  case (Cons e es)
  from Cons.prems(1) obtain s1 where
    e: "epoch env cfg w e s = (None, s1)" and rest: "epoch_loop env cfg w es s1 = (None, s')"
    by (auto simp: epoch_loop_def split: prod.splits option.splits)
  from epoch_calls[OF e] obtain rest' where
    r: "calls s1 = calls s @ epoch_updates env cfg e @ rest'" "list_all (\<lambda>c. \<not> is_update c) rest'"
    by blast
  have u: "filter is_update (epoch_updates env cfg e) = epoch_updates env cfg e"
    by (auto simp: epoch_updates_def filter_id_conv)
  have n: "filter is_update rest' = []"
    using r(2) by (simp add: list_all_iff)
  from Cons.IH[OF rest] r(1) u n show ?case by simp
qed

lemma wandb_init_frame:
  assumes "wandb_init env cfg s = (r, s')"
  shows "\<exists>k. s' = s\<lparr>sink := k\<rparr>"
  using assms
  by (auto simp: wandb_init_def wandb_def seq_def split: option.splits prod.splits
           intro: exI[of _ "sink s"])

lemma resolve_task_fields [simp]:
  "every_n_val (fst (resolve_task ds cfg)) = every_n_val cfg"
  "epochs (fst (resolve_task ds cfg)) = epochs cfg"
  "contrastive (fst (resolve_task ds cfg)) = contrastive cfg"
  "wandb_proj (fst (resolve_task ds cfg)) = wandb_proj cfg"
  "wandb_save (fst (resolve_task ds cfg)) = wandb_save cfg"
  "experiment_id (fst (resolve_task ds cfg)) = experiment_id cfg"
  "model_save_dir (fst (resolve_task ds cfg)) = model_save_dir cfg"
  "task (fst (resolve_task ds cfg)) = task cfg"
  by (simp_all add: resolve_task_def)

lemma training_loop:
  assumes "training env cfg0 = (None, s)"
  shows "\<exists>k. epoch_loop env (fst (resolve_task (enzpred_dataset_list env) cfg0))
               (wandb_proj cfg0 \<noteq> None) [0..<nat (epochs cfg0)]
               ((initial_state env)\<lparr>sink := k\<rparr>) = (None, s)"
proof -
  from assms show ?thesis
    unfolding training_def Let_def
  proof (cases rule: seq_cases)
    case (second s1)
    from wandb_init_frame[OF second(1)] second(2) show ?thesis
      by auto
  qed simp
qed

lemma epoch_updates_resolved [simp]:
  "epoch_updates env (fst (resolve_task ds cfg)) = epoch_updates env cfg"
  by (rule ext) (simp add: epoch_updates_def)

lemma epoch_refines:
  assumes "epoch env cfg w e s = (None, s')"
  shows "epoch_params env cfg (opt s, opt_contrastive s, contrastive_loss_fct s, model s)
           = Inr (opt s', opt_contrastive s', contrastive_loss_fct s', model s')"
proof -
  let ?s = "s\<lparr>epo := Some e\<rparr>"
  from assms obtain s1 s2 where
    a: "supervised_pass env cfg w e ?s = (None, s1)" and
    b: "contrastive_pass env cfg w e s1 = (None, s2)" and
    c: "validation env cfg w e s2 = (None, s')"
    by (auto simp: epoch_def elim!: seq_cases)
  from a obtain s0 where
    a1: "for_each (train_batch env cfg w e) (enumerate 0 (training_generator env)) ?s = (None, s0)"
    and a2: "lr_epoch_end env w e s0 = (None, s1)"
    by (auto simp: supervised_pass_def elim!: seq_cases)
  from train_loop_params[OF a1] lr_epoch_end_params[OF a2]
  have sup: "supervised_steps env (opt s) (model s) (training_generator env) = Inr (opt s0, model s0)"
    "opt s1 = scheduler_step env (opt s0)" "model s1 = model s0"
    "opt_contrastive s1 = opt_contrastive s" "contrastive_loss_fct s1 = contrastive_loss_fct s"
    by simp_all
  note val = validation_params[OF c]
  show ?thesis
  proof (cases "contrastive cfg")
    case False
    with b have "s2 = s1" by (simp add: contrastive_pass_def)
    with sup val False show ?thesis by simp
  next
    case True
    with b obtain s3 where
      b1: "for_each (contrastive_batch env cfg w e) (enumerate 0 (contrastive_generator env)) s1
             = (None, s3)" and
      b2: "contrastive_epoch_end env w e s3 = (None, s2)"
      by (auto simp: contrastive_pass_def elim!: seq_cases)
    from contrastive_loop_params[OF b1] contrastive_epoch_end_params[OF b2] sup val True
    show ?thesis by simp
  qed
qed

lemma epoch_loop_refines:
  assumes "epoch_loop env cfg w es s = (None, s')"
  shows "run_params env cfg (length es) (opt s, opt_contrastive s, contrastive_loss_fct s, model s)
           = Inr (opt s', opt_contrastive s', contrastive_loss_fct s', model s')"
  using assms
proof (induction es arbitrary: s)
  case Nil
  then show ?case by (simp add: epoch_loop_def)
next
  case (Cons e es)
  from Cons.prems(1) obtain s1 where
    e: "epoch env cfg w e s = (None, s1)" and rest: "epoch_loop env cfg w es s1 = (None, s')"
    by (auto simp: epoch_loop_def split: prod.splits option.splits)
  from epoch_refines[OF e] Cons.IH[OF rest] show ?case by simp
qed

lemma epoch_params_resolved [simp]:
  "epoch_params env (fst (resolve_task ds cfg)) p = epoch_params env cfg p"
  by (cases p) (auto split: sum.splits prod.splits)

lemma run_params_resolved [simp]:
  "run_params env (fst (resolve_task ds cfg)) n p = run_params env cfg n p"
  by (induction n arbitrary: p) (simp_all split: sum.splits)

lemma epoch_validation:
  assumes "epoch env cfg w e s = (None, s')"
  shows "\<exists>s2. validation env cfg w e s2 = (None, s')
            \<and> max_metric s2 = max_metric s \<and> model_max s2 = model_max s
            \<and> logged s2 = logged s
            \<and> val_runs (calls s2) = val_runs (calls s) \<and> saved (calls s2) = saved (calls s)"
proof -
  from assms obtain s1 s2 where
    a: "supervised_pass env cfg w e (s\<lparr>epo := Some e\<rparr>) = (None, s1)" and
    b: "contrastive_pass env cfg w e s1 = (None, s2)" and
    c: "validation env cfg w e s2 = (None, s')"
    by (auto simp: epoch_def elim!: seq_cases)
  from supervised_pass_effect[OF a] obtain cs where
    a': "max_metric s1 = max_metric s" "model_max s1 = model_max s" "logged s1 = logged s"
        "calls s1 = calls s @ cs" "list_all is_update cs"
    by auto
  from contrastive_pass_effect[OF b] obtain ds where
    b': "max_metric s2 = max_metric s1" "model_max s2 = model_max s1" "logged s2 = logged s1"
        "calls s2 = calls s1 @ ds" "list_all is_update ds"
    by auto
  from passes_read[OF a'(4,5)] passes_read[OF b'(4,5)] a'(1-3) b'(1-3) c
  show ?thesis by (intro exI[of _ s2]) simp
qed

lemma epoch_cadence:
  assumes "epoch env cfg w e t = (None, t')"
  shows "every_n_val cfg \<noteq> 0 \<and>
         (if int e mod every_n_val cfg = 0
          then \<exists>results v.
                 test env (model t') (validation_generator env) (val_metrics cfg) (classify cfg)
                   = Inr results
               \<and> map_of (epoch_val_results env cfg e results) (watch_metric cfg) = Some v
               \<and> val_runs (calls t') = val_runs (calls t) @ [(e, model t', results)]
               \<and> model_max t' = (if exceeds v (max_metric t) then model t' else model_max t)
               \<and> max_metric t' = (if exceeds v (max_metric t) then v else max_metric t)
               \<and> saved (calls t') =
                   saved (calls t)
                   @ (if exceeds v (max_metric t) then [(epoch_save_path cfg e, model t')] else [])
          else val_runs (calls t') = val_runs (calls t) \<and> saved (calls t') = saved (calls t)
               \<and> max_metric t' = max_metric t \<and> model_max t' = model_max t
               \<and> logged t' = logged t)"
proof -
  from epoch_validation[OF assms] obtain s2 where
    v: "validation env cfg w e s2 = (None, t')" and
    f: "max_metric s2 = max_metric t" "model_max s2 = model_max t" "logged s2 = logged t"
       "val_runs (calls s2) = val_runs (calls t)" "saved (calls s2) = saved (calls t)"
    by blast
  from validation_params[OF v] have m: "model s2 = model t'" by simp
  from validation_runs[OF v] f m show ?thesis
    by (auto split: if_splits)
qed

lemma epoch_loop_runs:
  assumes "epoch_loop env cfg w es s = (None, s')" and "every_n_val cfg \<noteq> 0"
  shows "map fst (val_runs (calls s')) =
           map fst (val_runs (calls s)) @ filter (\<lambda>e. int e mod every_n_val cfg = 0) es
       \<and> (list_all (\<lambda>(e, m, results).
                      test env m (validation_generator env) (val_metrics cfg) (classify cfg)
                        = Inr results) (val_runs (calls s))
          \<longrightarrow> list_all (\<lambda>(e, m, results).
                      test env m (validation_generator env) (val_metrics cfg) (classify cfg)
                        = Inr results) (val_runs (calls s')))"
  using assms
proof (induction es arbitrary: s)
  case Nil
  then show ?case by (simp add: epoch_loop_def)
next
  case (Cons e es)
  from Cons.prems(1) obtain s1 where
    e: "epoch env cfg w e s = (None, s1)" and rest: "epoch_loop env cfg w es s1 = (None, s')"
    by (auto simp: epoch_loop_def split: prod.splits option.splits)
  from epoch_cadence[OF e] Cons.IH[OF rest Cons.prems(2)] show ?case
    by (auto split: if_splits)
qed

subsection \<open>The validation cadence\<close>

text \<open>
  Claim C6. With a nonzero \<^verbatim>\<open>every_n_val\<close>, the validation passes of a completed run
  are those of the epochs whose index is a multiple of it, in order, so epoch 0 is among
  them as soon as there is an epoch; each of them is a call of \<^verbatim>\<open>test\<close> on the
  validation provider with the model of that moment, and what is recorded is what the call
  returned. On an epoch whose index is not a multiple the validation step leaves the whole
  state as it is: no metric is computed, nothing is logged, no checkpoint is considered.
  On a multiple the step is a full pass: it raises what \<^verbatim>\<open>test\<close> raises, and
  otherwise it records the call, hands the results to the sink when there is one, compares
  the watched value with the best one and, when it exceeds it, takes the snapshot, saves
  it under the path of the epoch and logs it. Read on a whole epoch that completes: the
  epoch adds one validation pass, on the model the epoch leaves, and decides the
  checkpoint, exactly when its index is a multiple; otherwise the passes, the saved
  snapshots, the best value, the best model and the log are as before the epoch.
\<close>

theorem validation_cadence:
  assumes "every_n_val cfg0 \<noteq> 0"
    and "cfg = fst (resolve_task (enzpred_dataset_list env) cfg0)"
  shows "(training env cfg0 = (None, s) \<longrightarrow>
            map fst (val_runs (calls s)) =
              filter (\<lambda>e. int e mod every_n_val cfg0 = 0) [0..<nat (epochs cfg0)]
          \<and> list_all (\<lambda>(e, m, results).
                        test env m (validation_generator env) (val_metrics cfg) (classify cfg)
                          = Inr results) (val_runs (calls s))
          \<and> (0 < epochs cfg0 \<longrightarrow> 0 \<in> set (map fst (val_runs (calls s)))))
       \<and> (\<forall>e t. int e mod every_n_val cfg0 \<noteq> 0 \<longrightarrow> validation env cfg w e t = (None, t))
       \<and> (\<forall>e t r t'. int e mod every_n_val cfg0 = 0 \<and> validation env cfg w e t = (r, t') \<longrightarrow>
            (case test env (model t) (validation_generator env) (val_metrics cfg) (classify cfg) of
               Inl x \<Rightarrow> r = Some x \<and> t' = t
             | Inr results \<Rightarrow>
                 (r = None \<longrightarrow>
                   (\<exists>v. map_of (epoch_val_results env cfg e results) (watch_metric cfg) = Some v
                      \<and> t' = (if exceeds v (max_metric t)
                              then t\<lparr>model_max := model t, max_metric := v,
                                     calls := calls t @ [Test (Validation e) (model t) results,
                                                        TorchSave (epoch_save_path cfg e) (model t)],
                                     logged := logged t @ [LogCheckpoint (epoch_save_path cfg e)],
                                     sink := sink t'\<rparr>
                              else t\<lparr>calls := calls t @ [Test (Validation e) (model t) results],
                                     sink := sink t'\<rparr>)
                      \<and> sink t' =
                          (if w
                           then sink t
                                @ WandbLog (map (\<lambda>(k, v). (k, WScalar v))
                                              (epoch_val_results env cfg e results))
                                # (if exceeds v (max_metric t) \<and> wandb_save cfg
                                   then [WandbLogArtifact (''dti-'' @ experiment_id cfg)
                                           (epoch_save_path cfg e)]
                                   else [])
                           else sink t)))))
       \<and> (\<forall>e t t'. epoch env cfg w e t = (None, t') \<longrightarrow>
            (if int e mod every_n_val cfg0 = 0
             then \<exists>results v.
                    test env (model t') (validation_generator env) (val_metrics cfg) (classify cfg)
                      = Inr results
                  \<and> map_of (epoch_val_results env cfg e results) (watch_metric cfg) = Some v
                  \<and> val_runs (calls t') = val_runs (calls t) @ [(e, model t', results)]
                  \<and> model_max t' = (if exceeds v (max_metric t) then model t' else model_max t)
                  \<and> max_metric t' = (if exceeds v (max_metric t) then v else max_metric t)
                  \<and> saved (calls t') =
                      saved (calls t)
                      @ (if exceeds v (max_metric t) then [(epoch_save_path cfg e, model t')]
                         else [])
             else val_runs (calls t') = val_runs (calls t) \<and> saved (calls t') = saved (calls t)
                  \<and> max_metric t' = max_metric t \<and> model_max t' = model_max t
                  \<and> logged t' = logged t))"
proof -
  have n: "every_n_val cfg = every_n_val cfg0" and n0: "every_n_val cfg \<noteq> 0"
    using assms by simp_all
  have run: "training env cfg0 = (None, s) \<longrightarrow>
            map fst (val_runs (calls s)) =
              filter (\<lambda>e. int e mod every_n_val cfg0 = 0) [0..<nat (epochs cfg0)]
          \<and> list_all (\<lambda>(e, m, results).
                        test env m (validation_generator env) (val_metrics cfg) (classify cfg)
                          = Inr results) (val_runs (calls s))
          \<and> (0 < epochs cfg0 \<longrightarrow> 0 \<in> set (map fst (val_runs (calls s))))"
  proof
    assume "training env cfg0 = (None, s)"
    from training_loop[OF this] obtain k where
      "epoch_loop env cfg (wandb_proj cfg0 \<noteq> None) [0..<nat (epochs cfg0)]
                 ((initial_state env)\<lparr>sink := k\<rparr>) = (None, s)"
      unfolding assms(2) by blast
    from epoch_loop_runs[OF this n0]
    have v: "map fst (val_runs (calls s)) =
              filter (\<lambda>e. int e mod every_n_val cfg0 = 0) [0..<nat (epochs cfg0)]"
      and l: "list_all (\<lambda>(e, m, results).
                        test env m (validation_generator env) (val_metrics cfg) (classify cfg)
                          = Inr results) (val_runs (calls s))"
      by (simp_all add: initial_state_def n)
    have z: "0 < epochs cfg0 \<longrightarrow> 0 \<in> set (map fst (val_runs (calls s)))"
      unfolding v by auto
    from v l z
    show "map fst (val_runs (calls s)) =
              filter (\<lambda>e. int e mod every_n_val cfg0 = 0) [0..<nat (epochs cfg0)]
          \<and> list_all (\<lambda>(e, m, results).
                        test env m (validation_generator env) (val_metrics cfg) (classify cfg)
                          = Inr results) (val_runs (calls s))
          \<and> (0 < epochs cfg0 \<longrightarrow> 0 \<in> set (map fst (val_runs (calls s))))"
      by (intro conjI)
  qed
  have skip: "\<forall>e t. int e mod every_n_val cfg0 \<noteq> 0 \<longrightarrow> validation env cfg w e t = (None, t)"
    using n n0 by (simp add: validation_skip)
  have pass: "(\<forall>e t r t'. int e mod every_n_val cfg0 = 0 \<and> validation env cfg w e t = (r, t') \<longrightarrow>
            (case test env (model t) (validation_generator env) (val_metrics cfg) (classify cfg) of
               Inl x \<Rightarrow> r = Some x \<and> t' = t
             | Inr results \<Rightarrow>
                 (r = None \<longrightarrow>
                   (\<exists>v. map_of (epoch_val_results env cfg e results) (watch_metric cfg) = Some v
                      \<and> t' = (if exceeds v (max_metric t)
                              then t\<lparr>model_max := model t, max_metric := v,
                                     calls := calls t @ [Test (Validation e) (model t) results,
                                                        TorchSave (epoch_save_path cfg e) (model t)],
                                     logged := logged t @ [LogCheckpoint (epoch_save_path cfg e)],
                                     sink := sink t'\<rparr>
                              else t\<lparr>calls := calls t @ [Test (Validation e) (model t) results],
                                     sink := sink t'\<rparr>)
                      \<and> sink t' =
                          (if w
                           then sink t
                                @ WandbLog (map (\<lambda>(k, v). (k, WScalar v))
                                              (epoch_val_results env cfg e results))
                                # (if exceeds v (max_metric t) \<and> wandb_save cfg
                                   then [WandbLogArtifact (''dti-'' @ experiment_id cfg)
                                           (epoch_save_path cfg e)]
                                   else [])
                           else sink t)))))"
  proof (intro allI impI)
    fix e t r t'
    assume "int e mod every_n_val cfg0 = 0 \<and> validation env cfg w e t = (r, t')"
    then have "int e mod every_n_val cfg = 0" "validation env cfg w e t = (r, t')"
      by (simp_all add: n)
    from validation_pass[OF n0 this]
    show "(case test env (model t) (validation_generator env) (val_metrics cfg) (classify cfg) of
               Inl x \<Rightarrow> r = Some x \<and> t' = t
             | Inr results \<Rightarrow>
                 (r = None \<longrightarrow>
                   (\<exists>v. map_of (epoch_val_results env cfg e results) (watch_metric cfg) = Some v
                      \<and> t' = (if exceeds v (max_metric t)
                              then t\<lparr>model_max := model t, max_metric := v,
                                     calls := calls t @ [Test (Validation e) (model t) results,
                                                        TorchSave (epoch_save_path cfg e) (model t)],
                                     logged := logged t @ [LogCheckpoint (epoch_save_path cfg e)],
                                     sink := sink t'\<rparr>
                              else t\<lparr>calls := calls t @ [Test (Validation e) (model t) results],
                                     sink := sink t'\<rparr>)
                      \<and> sink t' =
                          (if w
                           then sink t
                                @ WandbLog (map (\<lambda>(k, v). (k, WScalar v))
                                              (epoch_val_results env cfg e results))
                                # (if exceeds v (max_metric t) \<and> wandb_save cfg
                                   then [WandbLogArtifact (''dti-'' @ experiment_id cfg)
                                           (epoch_save_path cfg e)]
                                   else [])
                           else sink t))))" .
  qed
  have ep: "(\<forall>e t t'. epoch env cfg w e t = (None, t') \<longrightarrow>
            (if int e mod every_n_val cfg0 = 0
             then \<exists>results v.
                    test env (model t') (validation_generator env) (val_metrics cfg) (classify cfg)
                      = Inr results
                  \<and> map_of (epoch_val_results env cfg e results) (watch_metric cfg) = Some v
                  \<and> val_runs (calls t') = val_runs (calls t) @ [(e, model t', results)]
                  \<and> model_max t' = (if exceeds v (max_metric t) then model t' else model_max t)
                  \<and> max_metric t' = (if exceeds v (max_metric t) then v else max_metric t)
                  \<and> saved (calls t') =
                      saved (calls t)
                      @ (if exceeds v (max_metric t) then [(epoch_save_path cfg e, model t')]
                         else [])
             else val_runs (calls t') = val_runs (calls t) \<and> saved (calls t') = saved (calls t)
                  \<and> max_metric t' = max_metric t \<and> model_max t' = model_max t
                  \<and> logged t' = logged t))"
  proof (intro allI impI)
    fix e t t'
    assume "epoch env cfg w e t = (None, t')"
    from conjunct2[OF epoch_cadence[OF this], unfolded n]
    show "(if int e mod every_n_val cfg0 = 0
             then \<exists>results v.
                    test env (model t') (validation_generator env) (val_metrics cfg) (classify cfg)
                      = Inr results
                  \<and> map_of (epoch_val_results env cfg e results) (watch_metric cfg) = Some v
                  \<and> val_runs (calls t') = val_runs (calls t) @ [(e, model t', results)]
                  \<and> model_max t' = (if exceeds v (max_metric t) then model t' else model_max t)
                  \<and> max_metric t' = (if exceeds v (max_metric t) then v else max_metric t)
                  \<and> saved (calls t') =
                      saved (calls t)
                      @ (if exceeds v (max_metric t) then [(epoch_save_path cfg e, model t')]
                         else [])
             else val_runs (calls t') = val_runs (calls t) \<and> saved (calls t') = saved (calls t)
                  \<and> max_metric t' = max_metric t \<and> model_max t' = model_max t
                  \<and> logged t' = logged t)"
      .
  qed
  from run skip pass ep show ?thesis
    by (intro conjI)
qed

theorem validation_cadence_witness:
  "every_n_val (example_config\<lparr>every_n_val := 2\<rparr>) \<noteq> 0
   \<and> fst (training (example_env happy_score) (example_config\<lparr>every_n_val := 2\<rparr>)) = None
   \<and> map fst (val_runs
        (calls (snd (training (example_env happy_score) (example_config\<lparr>every_n_val := 2\<rparr>)))))
       = [0, 2]
   \<and> val_runs
        (calls (snd (training (example_env happy_score) (example_config\<lparr>every_n_val := 2\<rparr>))))
       = [(0, 1, [(''val/aupr'', Number (61 / 100)), (''val/auroc'', Number (61 / 100))]),
          (2, 3, [(''val/aupr'', Number (68 / 100)), (''val/auroc'', Number (68 / 100))])]
   \<and> validation (example_env happy_score)
        (fst (resolve_task (enzpred_dataset_list (example_env happy_score))
               (example_config\<lparr>every_n_val := 2\<rparr>)))
        False 1 (initial_state (example_env happy_score))
       = (None, initial_state (example_env happy_score))"
proof -
  let ?E = "example_env happy_score"
  let ?C = "example_config\<lparr>every_n_val := 2\<rparr>"
  let ?R = "fst (resolve_task (enzpred_dataset_list ?E) ?C)"
  have a: "every_n_val ?C \<noteq> 0" by (simp add: example_config_def)
  have f: "fst (training ?E ?C) = None" by code_simp
  then have b: "training ?E ?C = (None, snd (training ?E ?C))"
    by (simp add: prod_eq_iff)
  have n: "every_n_val ?C = 2" "epochs ?C = 3" by (simp_all add: example_config_def)
  have l: "filter (\<lambda>e. int e mod 2 = 0) [0..<nat 3] = [0, 2]" by code_simp
  have m: "int 1 mod every_n_val ?C \<noteq> 0" by (simp add: n)
  have r: "val_runs (calls (snd (training ?E ?C)))
       = [(0, 1, [(''val/aupr'', Number (61 / 100)), (''val/auroc'', Number (61 / 100))]),
          (2, 3, [(''val/aupr'', Number (68 / 100)), (''val/auroc'', Number (68 / 100))])]"
    by code_simp
  from validation_cadence[OF a refl, where s = "snd (training ?E ?C)" and w = False] b m
  have "map fst (val_runs (calls (snd (training ?E ?C)))) = [0, 2]"
    and "validation ?E ?R False 1 (initial_state ?E) = (None, initial_state ?E)"
    unfolding n l by blast+
  with a f r show ?thesis by (intro conjI)
qed

subsection \<open>The order of the updates\<close>

text \<open>
  Claim C7. An epoch that completes leaves the two optimizers, the margin scheduler and
  the model as \<^verbatim>\<open>epoch_params\<close> prescribes: one supervised optimizer step per batch of
  the supervised provider, in full, then, only with contrastive training, one contrastive
  optimizer step per batch of the contrastive provider on the model the supervised pass
  left; the supervised schedule advanced once, on the optimizer its pass left, and the
  margin scheduler and the contrastive schedule advanced once, after the contrastive
  pass. The calls of the epoch on the optimizers and schedulers are contiguous, in this
  order, and only evaluation and save calls follow them. A run that completes is one such
  epoch after the other, from the objects the set-up created, both on the parameters and
  on the sequence of calls.
\<close>

theorem update_order:
  "(epoch env cfg w e t = (None, t') \<longrightarrow>
      epoch_params env cfg (opt t, opt_contrastive t, contrastive_loss_fct t, model t)
        = Inr (opt t', opt_contrastive t', contrastive_loss_fct t', model t')
      \<and> (\<exists>rest. calls t' = calls t @ epoch_updates env cfg e @ rest
               \<and> list_all (\<lambda>c. \<not> is_update c) rest))
   \<and> (training env cfg0 = (None, s) \<longrightarrow>
      run_params env cfg0 (nat (epochs cfg0))
          (initial_opt env, initial_opt_contrastive env, initial_margin_loss env, initial_model env)
        = Inr (opt s, opt_contrastive s, contrastive_loss_fct s, model s)
      \<and> filter is_update (calls s) = concat (map (epoch_updates env cfg0) [0..<nat (epochs cfg0)]))"
proof (intro conjI impI)
  assume e: "epoch env cfg w e t = (None, t')"
  from e show "epoch_params env cfg (opt t, opt_contrastive t, contrastive_loss_fct t, model t)
        = Inr (opt t', opt_contrastive t', contrastive_loss_fct t', model t')"
    by (rule epoch_refines)
  from e show "\<exists>rest. calls t' = calls t @ epoch_updates env cfg e @ rest
             \<and> list_all (\<lambda>c. \<not> is_update c) rest"
    by (rule epoch_calls)
next
  assume "training env cfg0 = (None, s)"
  from training_loop[OF this] obtain k where
    l: "epoch_loop env (fst (resolve_task (enzpred_dataset_list env) cfg0))
               (wandb_proj cfg0 \<noteq> None) [0..<nat (epochs cfg0)]
               ((initial_state env)\<lparr>sink := k\<rparr>) = (None, s)" by blast
  from epoch_loop_refines[OF l]
  show "run_params env cfg0 (nat (epochs cfg0))
          (initial_opt env, initial_opt_contrastive env, initial_margin_loss env, initial_model env)
        = Inr (opt s, opt_contrastive s, contrastive_loss_fct s, model s)"
    by (simp add: initial_state_def)
  from epoch_loop_updates[OF l]
  show "filter is_update (calls s) = concat (map (epoch_updates env cfg0) [0..<nat (epochs cfg0)])"
    by (simp add: initial_state_def)
qed

theorem update_order_witness:
  "fst (training (example_env happy_score) (example_config\<lparr>contrastive := True, epochs := 2\<rparr>)) = None
   \<and> run_params (example_env happy_score) (example_config\<lparr>contrastive := True, epochs := 2\<rparr>) 2
        (0, 0, 0, 0)
       = Inr (202, 204, 2, 6)
   \<and> opt (snd (training (example_env happy_score)
                  (example_config\<lparr>contrastive := True, epochs := 2\<rparr>))) = 202
   \<and> opt_contrastive (snd (training (example_env happy_score)
                  (example_config\<lparr>contrastive := True, epochs := 2\<rparr>))) = 204
   \<and> contrastive_loss_fct (snd (training (example_env happy_score)
                  (example_config\<lparr>contrastive := True, epochs := 2\<rparr>))) = 2
   \<and> model (snd (training (example_env happy_score)
                  (example_config\<lparr>contrastive := True, epochs := 2\<rparr>))) = 6
   \<and> filter is_update
        (calls (snd (training (example_env happy_score)
                       (example_config\<lparr>contrastive := True, epochs := 2\<rparr>))))
       = [OptStep 0 0, LrSchedulerStep 0, OptContrastiveStep 0 0, OptContrastiveStep 0 1,
          MarginStep 0, LrSchedulerContrastiveStep 0,
          OptStep 1 0, LrSchedulerStep 1, OptContrastiveStep 1 0, OptContrastiveStep 1 1,
          MarginStep 1, LrSchedulerContrastiveStep 1]
   \<and> fst (epoch (example_env happy_score) (fst (resolve_task [] example_config)) False 0
             (initial_state (example_env happy_score))) = None
   \<and> epoch_params (example_env happy_score) (fst (resolve_task [] example_config)) (0, 0, 0, 0)
       = Inr (101, 0, 0, 1)
   \<and> calls (snd (epoch (example_env happy_score)
                      (fst (resolve_task [] example_config)) False 0
                      (initial_state (example_env happy_score))))
       = [OptStep 0 0, LrSchedulerStep 0,
          Test (Validation 0) 1 [(''val/aupr'', Number (61 / 100)), (''val/auroc'', Number (61 / 100))],
          TorchSave ''./exp_best_model_epoch00.pt'' 1]"
proof -
  let ?E = "example_env happy_score"
  let ?C = "example_config\<lparr>contrastive := True, epochs := 2\<rparr>"
  let ?R = "fst (resolve_task [] example_config)"
  let ?s = "snd (training ?E ?C)"
  let ?t = "snd (epoch ?E ?R False 0 (initial_state ?E))"
  have f: "fst (training ?E ?C) = None" by code_simp
  then have b: "training ?E ?C = (None, ?s)"
    by (simp add: prod_eq_iff)
  have g: "fst (epoch ?E ?R False 0 (initial_state ?E)) = None" by code_simp
  then have c: "epoch ?E ?R False 0 (initial_state ?E) = (None, ?t)"
    by (simp add: prod_eq_iff)
  have u: "concat (map (epoch_updates ?E ?C) [0..<nat (epochs ?C)])
           = [OptStep 0 0, LrSchedulerStep 0, OptContrastiveStep 0 0, OptContrastiveStep 0 1,
          MarginStep 0, LrSchedulerContrastiveStep 0,
          OptStep 1 0, LrSchedulerStep 1, OptContrastiveStep 1 0, OptContrastiveStep 1 1,
          MarginStep 1, LrSchedulerContrastiveStep 1]"
    by code_simp
  have i: "opt (initial_state ?E) = 0" "opt_contrastive (initial_state ?E) = 0"
    "contrastive_loss_fct (initial_state ?E) = 0" "model (initial_state ?E) = 0"
    "initial_opt ?E = 0" "initial_opt_contrastive ?E = 0" "initial_margin_loss ?E = 0"
    "initial_model ?E = 0" "nat (epochs ?C) = 2"
    by code_simp+
  have p: "opt ?s = 202" "opt_contrastive ?s = 204" "contrastive_loss_fct ?s = 2" "model ?s = 6"
    by code_simp+
  have q: "opt ?t = 101" "opt_contrastive ?t = 0" "contrastive_loss_fct ?t = 0" "model ?t = 1"
    by code_simp+
  have k: "calls ?t
       = [OptStep 0 0, LrSchedulerStep 0,
          Test (Validation 0) 1 [(''val/aupr'', Number (61 / 100)), (''val/auroc'', Number (61 / 100))],
          TorchSave ''./exp_best_model_epoch00.pt'' 1]"
    by code_simp
  from update_order[where env = ?E and ?cfg0.0 = ?C and s = ?s and cfg = ?R and w = False
         and e = 0 and t = "initial_state ?E" and t' = ?t] b c
  have "run_params ?E ?C 2 (0, 0, 0, 0) = Inr (202, 204, 2, 6)"
    and "filter is_update (calls ?s) = concat (map (epoch_updates ?E ?C) [0..<nat (epochs ?C)])"
    and "epoch_params ?E ?R (0, 0, 0, 0) = Inr (101, 0, 0, 1)"
    unfolding i p q by simp_all
  with f g p k show ?thesis
    unfolding u by (intro conjI)
qed

subsection \<open>The best snapshot\<close>

text \<open>
  Claim C1, evaluated where the code departs from it. The task is \<^verbatim>\<open>dti_dg\<close> and the
  two validation passes of the run compute the Pearson correlations -0.5 and -0.25, for
  the models after one and after two steps. Neither exceeds the initial best value 0, so
  \<^verbatim>\<open>max_metric\<close> is still 0, a value no pass computed, and \<^verbatim>\<open>model_max\<close> is still the
  copy of the initial model, which no validation pass evaluated: the held snapshot is not
  one of the validated models, let alone the one with the maximum value -0.25.
\<close>

theorem untrained_snapshot_held:
  "fst (training (example_env negative_score) regression_config) = None
   \<and> val_passes ''val/pcc'' (calls (snd (training (example_env negative_score) regression_config)))
       = [(1, Number (- 1 / 2)), (2, Number (- 1 / 4))]
   \<and> model_max (snd (training (example_env negative_score) regression_config)) = 0
   \<and> max_metric (snd (training (example_env negative_score) regression_config)) = Number 0
   \<and> \<not> (\<exists>(m, v) \<in> set (val_passes ''val/pcc''
                           (calls (snd (training (example_env negative_score) regression_config)))).
           m = model_max (snd (training (example_env negative_score) regression_config)))"
proof -
  let ?s = "snd (training (example_env negative_score) regression_config)"
  have f: "fst (training (example_env negative_score) regression_config) = None" by code_simp
  have p: "val_passes ''val/pcc'' (calls ?s) = [(1, Number (- 1 / 2)), (2, Number (- 1 / 4))]" by code_simp
  have m: "model_max ?s = 0" by code_simp
  have x: "max_metric ?s = Number 0" by code_simp
  have n: "\<not> (\<exists>(m, v) \<in> set (val_passes ''val/pcc'' (calls ?s)). m = model_max ?s)"
    unfolding p m by simp
  from f p m x n show ?thesis by (intro conjI)
qed

text \<open>
  Claim C2, evaluated where the code departs from it. The task is \<^verbatim>\<open>dti_dg\<close>, so the
  watched metric is the Pearson correlation, and the run is one epoch long. The first
  validation pass computes the valid value -0.5, which does not exceed the initial best
  value 0: no snapshot is saved for the epoch, the best value stays 0, and the run returns
  the initial model and saves it under the final path.
\<close>

theorem first_pass_without_checkpoint:
  "watch_metric (fst (resolve_task [''halogenase''] (regression_config\<lparr>epochs := 1\<rparr>))) = ''val/pcc''
   \<and> fst (main (example_env negative_score) (regression_config\<lparr>epochs := 1\<rparr>)) = Inr 0
   \<and> calls (snd (training (example_env negative_score) (regression_config\<lparr>epochs := 1\<rparr>)))
       = [OptStep 0 0, LrSchedulerStep 0,
          Test (Validation 0) 1 [(''val/mse'', Number (- 1 / 2)), (''val/pcc'', Number (- 1 / 2))]]
   \<and> max_metric (snd (training (example_env negative_score) (regression_config\<lparr>epochs := 1\<rparr>))) = Number 0
   \<and> saved (calls (snd (main (example_env negative_score) (regression_config\<lparr>epochs := 1\<rparr>))))
       = [(''./exp_best_model.pt'', 0)]"
proof -
  let ?C = "regression_config\<lparr>epochs := 1\<rparr>"
  let ?E = "example_env negative_score"
  have a: "watch_metric (fst (resolve_task [''halogenase''] ?C)) = ''val/pcc''" by code_simp
  have b: "fst (main ?E ?C) = Inr 0" by code_simp
  have c: "calls (snd (training ?E ?C))
       = [OptStep 0 0, LrSchedulerStep 0,
          Test (Validation 0) 1 [(''val/mse'', Number (- 1 / 2)), (''val/pcc'', Number (- 1 / 2))]]" by code_simp
  have d: "max_metric (snd (training ?E ?C)) = Number 0" by code_simp
  have e: "saved (calls (snd (main ?E ?C))) = [(''./exp_best_model.pt'', 0)]" by code_simp
  from a b c d e show ?thesis by (intro conjI)
qed

subsection \<open>The terminal test pass\<close>

lemma testing_body_effect:
  assumes "testing_body env cfg w s = (r, s1)"
  shows "model_max s1 = model_max s \<and> model s1 = model s \<and> max_metric s1 = max_metric s"
  using assms
  by (auto simp: testing_body_def Let_def seq_def wandb_log_def wandb_def torch_save_def
                 log_artifact_def
           split: sum.splits prod.splits option.splits if_splits)

lemma testing_model_max: "model_max (testing env cfg w s) = model_max s"
proof -
  obtain r s1 where b: "testing_body env cfg w s = (r, s1)"
    by (cases "testing_body env cfg w s")
  from testing_body_effect[OF b] b show ?thesis
    by (cases r) (simp_all add: testing_def)
qed

lemma epoch_raises:
  assumes "supervised_pass env cfg w e (t\<lparr>epo := Some e\<rparr>) = (Some x, t')
         \<or> (\<exists>t1. supervised_pass env cfg w e (t\<lparr>epo := Some e\<rparr>) = (None, t1)
               \<and> (contrastive_pass env cfg w e t1 = (Some x, t')
                    \<or> (\<exists>t2. contrastive_pass env cfg w e t1 = (None, t2)
                             \<and> validation env cfg w e t2 = (Some x, t'))))"
  shows "epoch env cfg w e t = (Some x, t')"
  using assms by (auto simp: epoch_def seq_def)

lemma epoch_loop_raises:
  assumes "epoch_loop env cfg w es s0 = (None, t)" and "epoch env cfg w e t = (Some x, t')"
  shows "epoch_loop env cfg w (es @ e # es') s0 = (Some x, t')"
  using assms by (simp add: epoch_loop_def for_each_append seq_def)

text \<open>
  Claim C4. When the epoch loop completes, \<^verbatim>\<open>main\<close> returns \<^verbatim>\<open>model_max\<close> of the loop
  whatever the terminal test pass does: an exception raised in the body of the
  \<^verbatim>\<open>try\<close> (by the evaluation, the sink or the saving of the snapshot) is appended to
  the log and nothing is raised. An exception raised by the supervised pass, the
  contrastive pass or the validation of an epoch is the outcome of \<^verbatim>\<open>main\<close>, with the
  state of that moment: no later epoch and no test pass runs.
\<close>

theorem terminal_pass_recovers:
  assumes "cfg = fst (resolve_task (enzpred_dataset_list env) cfg0)"
    and "w = (wandb_proj cfg0 \<noteq> None)"
  shows "(training env cfg0 = (None, s) \<longrightarrow>
            fst (main env cfg0) = Inr (model_max s)
            \<and> (\<forall>x s1. testing_body env cfg w s = (Some x, s1) \<longrightarrow>
                   snd (main env cfg0) = s1\<lparr>logged := logged s1 @ [LogError x]\<rparr>
                   \<and> model_max s1 = model_max s))
       \<and> (wandb_init env cfg (initial_state env) = (None, s0)
            \<and> [0..<nat (epochs cfg0)] = es @ e # es'
            \<and> epoch_loop env cfg w es s0 = (None, t)
            \<and> (supervised_pass env cfg w e (t\<lparr>epo := Some e\<rparr>) = (Some x', t')
                 \<or> (\<exists>t1. supervised_pass env cfg w e (t\<lparr>epo := Some e\<rparr>) = (None, t1)
                       \<and> (contrastive_pass env cfg w e t1 = (Some x', t')
                            \<or> (\<exists>t2. contrastive_pass env cfg w e t1 = (None, t2)
                                     \<and> validation env cfg w e t2 = (Some x', t')))))
            \<longrightarrow> main env cfg0 = (Inl x', t'))"
proof (intro conjI impI allI)
  assume tr: "training env cfg0 = (None, s)"
  then show "fst (main env cfg0) = Inr (model_max s)"
    by (simp add: main_def Let_def testing_model_max)
  fix x s1
  assume b: "testing_body env cfg w s = (Some x, s1)"
  with tr assms show "snd (main env cfg0) = s1\<lparr>logged := logged s1 @ [LogError x]\<rparr>"
    by (simp add: main_def Let_def testing_def)
  from testing_body_effect[OF b] show "model_max s1 = model_max s" by simp
next
  assume h: "wandb_init env cfg (initial_state env) = (None, s0)
            \<and> [0..<nat (epochs cfg0)] = es @ e # es'
            \<and> epoch_loop env cfg w es s0 = (None, t)
            \<and> (supervised_pass env cfg w e (t\<lparr>epo := Some e\<rparr>) = (Some x', t')
                 \<or> (\<exists>t1. supervised_pass env cfg w e (t\<lparr>epo := Some e\<rparr>) = (None, t1)
                       \<and> (contrastive_pass env cfg w e t1 = (Some x', t')
                            \<or> (\<exists>t2. contrastive_pass env cfg w e t1 = (None, t2)
                                     \<and> validation env cfg w e t2 = (Some x', t')))))"
  then have "epoch env cfg w e t = (Some x', t')"
    by (intro epoch_raises) blast
  with h have "epoch_loop env cfg w [0..<nat (epochs cfg0)] s0 = (Some x', t')"
    by (simp add: epoch_loop_raises)
  with h assms have "training env cfg0 = (Some x', t')"
    by (simp add: training_def Let_def seq_def)
  then show "main env cfg0 = (Inl x', t')"
    by (simp add: main_def Let_def)
qed

theorem terminal_pass_recovers_witness:
  "fst (training full_disk_env example_config) = None
   \<and> fst (testing_body full_disk_env (fst (resolve_task [''halogenase''] example_config)) False
           (snd (training full_disk_env example_config))) = Some (Raised ''disk full'')
   \<and> fst (main full_disk_env example_config) = Inr 2
   \<and> model_max (snd (training full_disk_env example_config)) = 2
   \<and> logged (snd (main full_disk_env example_config))
       = [LogCheckpoint ''./exp_best_model_epoch00.pt'', LogCheckpoint ''./exp_best_model_epoch01.pt'',
          LogError (Raised ''disk full'')]
   \<and> fst (epoch_loop nan_env (fst (resolve_task [''halogenase''] example_config)) False [0]
           (initial_state nan_env)) = None
   \<and> fst (supervised_pass nan_env (fst (resolve_task [''halogenase''] example_config)) False 1
           ((snd (epoch_loop nan_env (fst (resolve_task [''halogenase''] example_config)) False [0]
                    (initial_state nan_env)))\<lparr>epo := Some 1\<rparr>)) = Some (Raised ''nan'')
   \<and> fst (main nan_env example_config) = Inl (Raised ''nan'')
   \<and> validated_epochs (calls (snd (main nan_env example_config))) = [0]"
proof -
  let ?C = "example_config"
  let ?R = "fst (resolve_task [''halogenase''] ?C)"
  let ?D = "full_disk_env"
  let ?N = "nan_env"
  let ?s = "snd (training ?D ?C)"
  let ?s1 = "snd (testing_body ?D ?R False ?s)"
  have d: "enzpred_dataset_list ?D = [''halogenase'']" "enzpred_dataset_list ?N = [''halogenase'']"
    by (simp_all add: full_disk_env_def nan_env_def example_env_def generic_env_def)
  have r: "?R = fst (resolve_task (enzpred_dataset_list ?D) ?C)"
    "?R = fst (resolve_task (enzpred_dataset_list ?N) ?C)" by (simp_all add: d)
  have w: "False = (wandb_proj ?C \<noteq> None)" by (simp add: example_config_def)
  have f: "fst (training ?D ?C) = None" by code_simp
  then have tr: "training ?D ?C = (None, ?s)" by (simp add: prod_eq_iff)
  have g: "fst (testing_body ?D ?R False ?s) = Some (Raised ''disk full'')" by code_simp
  then have tb: "testing_body ?D ?R False ?s = (Some (Raised ''disk full''), ?s1)"
    by (simp add: prod_eq_iff)
  have mm: "model_max ?s = 2" by code_simp
  have lg: "logged ?s1
       = [LogCheckpoint ''./exp_best_model_epoch00.pt'', LogCheckpoint ''./exp_best_model_epoch01.pt'']"
    by code_simp
  from terminal_pass_recovers[OF r(1) w, where s = ?s] tr tb
  have a1: "fst (main ?D ?C) = Inr (model_max ?s)"
    and a2: "snd (main ?D ?C) = ?s1\<lparr>logged := logged ?s1 @ [LogError (Raised ''disk full'')]\<rparr>"
    by blast+
  have a3: "logged (snd (main ?D ?C))
       = [LogCheckpoint ''./exp_best_model_epoch00.pt'', LogCheckpoint ''./exp_best_model_epoch01.pt'',
          LogError (Raised ''disk full'')]"
    unfolding a2 by (simp add: lg)
  let ?t = "snd (epoch_loop ?N ?R False [0] (initial_state ?N))"
  let ?t' = "snd (supervised_pass ?N ?R False 1 (?t\<lparr>epo := Some 1\<rparr>))"
  have i: "wandb_init ?N ?R (initial_state ?N) = (None, initial_state ?N)"
    by (simp add: wandb_init_def resolve_task_def example_config_def)
  have e: "[0..<nat (epochs ?C)] = [0] @ 1 # [2]" by code_simp
  have l: "fst (epoch_loop ?N ?R False [0] (initial_state ?N)) = None" by code_simp
  then have l': "epoch_loop ?N ?R False [0] (initial_state ?N) = (None, ?t)"
    by (simp add: prod_eq_iff)
  have p: "fst (supervised_pass ?N ?R False 1 (?t\<lparr>epo := Some 1\<rparr>)) = Some (Raised ''nan'')"
    by code_simp
  then have p': "supervised_pass ?N ?R False 1 (?t\<lparr>epo := Some 1\<rparr>) = (Some (Raised ''nan''), ?t')"
    by (simp add: prod_eq_iff)
  from terminal_pass_recovers[OF r(2) w, where ?s0.0 = "initial_state ?N" and es = "[0]"
         and e = 1 and es' = "[2]" and t = ?t and x' = "Raised ''nan''" and t' = ?t']
       i e l' p'
  have b1: "main ?N ?C = (Inl (Raised ''nan''), ?t')"
    by blast
  have b2: "validated_epochs (calls ?t') = [0]" by code_simp
  from f g a1 mm a3 l p b1 b2 show ?thesis
    by (intro conjI) simp_all
qed

lemma paths_distinct: "epoch_save_path cfg e \<noteq> final_save_path cfg"
  by (simp add: epoch_save_path_def final_save_path_def)

text \<open>
  Claim C5. After the loop the terminal pass evaluates \<^verbatim>\<open>model_max\<close> on the test
  provider, and a pass that raises nothing saves \<^verbatim>\<open>model_max\<close> under the final path,
  which is the save directory, the experiment id and \<^verbatim>\<open>_best_model.pt\<close>, and differs
  from the path of every epoch.
\<close>

theorem terminal_pass_uses_best:
  assumes "cfg = fst (resolve_task (enzpred_dataset_list env) cfg0)"
    and "w = (wandb_proj cfg0 \<noteq> None)"
    and "training env cfg0 = (None, s)"
    and "testing_body env cfg w s = (None, s1)"
  shows "main env cfg0 = (Inr (model_max s), s1)
       \<and> (\<exists>results. test env (model_max s) (testing_generator env) (test_metrics cfg) (classify cfg)
                        = Inr results
              \<and> calls s1 = calls s @ [Test Testing (model_max s) results,
                                       TorchSave (final_save_path cfg) (model_max s)])
       \<and> final_save_path cfg = save_dir cfg0 @ ''/'' @ experiment_id cfg0 @ ''_best_model.pt''
       \<and> (\<forall>e. epoch_save_path cfg e \<noteq> final_save_path cfg)"
proof -
  from testing_body_effect[OF assms(4)] assms
  have m: "main env cfg0 = (Inr (model_max s), s1)"
    by (simp add: main_def Let_def testing_def)
  from assms(4) have c: "\<exists>results. test env (model_max s) (testing_generator env) (test_metrics cfg) (classify cfg)
                        = Inr results
              \<and> calls s1 = calls s @ [Test Testing (model_max s) results,
                                       TorchSave (final_save_path cfg) (model_max s)]"
    by (auto simp: testing_body_def Let_def seq_def wandb_log_def wandb_def torch_save_def
                 log_artifact_def
           split: sum.splits prod.splits option.splits if_splits)
  have p: "final_save_path cfg = save_dir cfg0 @ ''/'' @ experiment_id cfg0 @ ''_best_model.pt''"
    unfolding assms(1) by (simp add: final_save_path_def save_dir_def)
  have d: "\<forall>e. epoch_save_path cfg e \<noteq> final_save_path cfg"
    by (simp add: paths_distinct)
  from m c p d show ?thesis
    by (intro conjI)
qed

theorem terminal_pass_uses_best_witness:
  "fst (training (example_env happy_score) example_config) = None
   \<and> fst (testing_body (example_env happy_score) (fst (resolve_task [''halogenase''] example_config))
           False (snd (training (example_env happy_score) example_config))) = None
   \<and> model (snd (training (example_env happy_score) example_config)) = 3
   \<and> model_max (snd (training (example_env happy_score) example_config)) = 2
   \<and> fst (main (example_env happy_score) example_config) = Inr 2
   \<and> calls (snd (main (example_env happy_score) example_config))
       = calls (snd (training (example_env happy_score) example_config))
         @ [Test Testing 2 [(''test/aupr'', Number (74 / 100)), (''test/auroc'', Number (74 / 100))],
            TorchSave ''./exp_best_model.pt'' 2]
   \<and> saved (calls (snd (training (example_env happy_score) example_config)))
       = [(''./exp_best_model_epoch00.pt'', 1), (''./exp_best_model_epoch01.pt'', 2)]"
proof -
  let ?E = "example_env happy_score"
  let ?C = "example_config"
  let ?R = "fst (resolve_task [''halogenase''] ?C)"
  let ?s = "snd (training ?E ?C)"
  let ?s1 = "snd (testing_body ?E ?R False ?s)"
  have d: "enzpred_dataset_list ?E = [''halogenase'']" by (simp add: example_env_def generic_env_def)
  have r: "?R = fst (resolve_task (enzpred_dataset_list ?E) ?C)" by (simp add: d)
  have w: "False = (wandb_proj ?C \<noteq> None)" by (simp add: example_config_def)
  have f: "fst (training ?E ?C) = None" by code_simp
  then have tr: "training ?E ?C = (None, ?s)" by (simp add: prod_eq_iff)
  have g: "fst (testing_body ?E ?R False ?s) = None" by code_simp
  then have tb: "testing_body ?E ?R False ?s = (None, ?s1)" by (simp add: prod_eq_iff)
  have m: "model ?s = 3" by code_simp
  have mm: "model_max ?s = 2" by code_simp
  have te: "test ?E 2 (testing_generator ?E) (test_metrics ?R) (classify ?R)
            = Inr [(''test/aupr'', Number (74 / 100)), (''test/auroc'', Number (74 / 100))]" by code_simp
  have fp: "final_save_path ?R = ''./exp_best_model.pt''" by code_simp
  have sv: "saved (calls ?s)
       = [(''./exp_best_model_epoch00.pt'', 1), (''./exp_best_model_epoch01.pt'', 2)]"
    by code_simp
  from terminal_pass_uses_best[OF r w tr tb]
  have k: "main ?E ?C = (Inr (model_max ?s), ?s1)"
    and "\<exists>results. test ?E (model_max ?s) (testing_generator ?E) (test_metrics ?R) (classify ?R)
                        = Inr results
              \<and> calls ?s1 = calls ?s @ [Test Testing (model_max ?s) results,
                                       TorchSave (final_save_path ?R) (model_max ?s)]"
    by blast+
  then have c: "calls ?s1 = calls ?s @ [Test Testing 2 [(''test/aupr'', Number (74 / 100)), (''test/auroc'', Number (74 / 100))],
            TorchSave ''./exp_best_model.pt'' 2]"
    unfolding mm fp te by auto
  have k1: "fst (main ?E ?C) = Inr 2" using k mm by simp
  have k2: "snd (main ?E ?C) = ?s1" using k by simp
  from f g m mm k1 c sv show ?thesis
    unfolding k2 by (intro conjI)
qed

subsection \<open>The watched metric\<close>



subsection \<open>The sink\<close>

















subsection \<open>The margin scheduler\<close>

lemma half_bounds: "- 1 \<le> (c::real) \<Longrightarrow> c \<le> 1 \<Longrightarrow> 0 \<le> (1 + c) / 2 \<and> (1 + c) / 2 \<le> 1"
  by simp

lemma ratio_bounds: "e \<le> (N::nat) \<Longrightarrow> 0 \<le> real e / real N \<and> real e / real N \<le> 1"
  by (cases "N = 0") simp_all

lemma scale_bounds: "0 \<le> (M::real) \<Longrightarrow> 0 \<le> q \<Longrightarrow> q \<le> 1 \<Longrightarrow> 0 \<le> M * q \<and> M * q \<le> M"
  by (simp add: mult_left_le)

lemma schedule_bounded:
  assumes "0 \<le> M" and "e \<le> N_epoch"
  shows "0 \<le> schedule kind M N_epoch N_restart e \<and> schedule kind M N_epoch N_restart e \<le> M"
proof (cases kind)
  case Constant
  with assms show ?thesis by (simp add: schedule_def)
next
  case LinearDecay
  from ratio_bounds[OF assms(2)]
  have "0 \<le> 1 - real e / real N_epoch" "1 - real e / real N_epoch \<le> 1"
    by simp_all
  from scale_bounds[OF assms(1) this] LinearDecay show ?thesis
    by (simp add: schedule_def)
next
  case CosineRestarts
  let ?c = "cos (pi * real (e mod N_restart) / real N_restart)"
  have "0 \<le> (1 + ?c) / 2 \<and> (1 + ?c) / 2 \<le> 1"
    by (rule half_bounds) (rule cos_ge_minus_one, rule cos_le_one)
  then have "0 \<le> (1 + ?c) / 2" "(1 + ?c) / 2 \<le> 1" by simp_all
  from scale_bounds[OF assms(1) this] CosineRestarts show ?thesis
    by (simp add: schedule_def)
qed

lemma schedule_start: "schedule kind M N_epoch N_restart 0 = M"
  by (cases kind) (simp_all add: schedule_def)

lemma margin_steps:
  "(margin_scheduler_step ^^ e) (margin_init M N_epoch N_restart kind)
     = (margin_init M N_epoch N_restart kind)
         \<lparr>epoch_index := e, current_margin := schedule kind M N_epoch N_restart e\<rparr>"
proof (induction e)
  case 0
  show ?case by (simp add: margin_init_def schedule_start)
next
  case (Suc e)
  then show ?case by (simp add: margin_scheduler_step_def margin_init_def Let_def)
qed

lemma for_each_preserves:
  assumes "\<And>x s r s'. body x s = (r, s') \<Longrightarrow> f s' = f s"
    and "for_each body xs s = (r, s')"
  shows "f s' = f s"
  using assms(2)
proof (induction xs arbitrary: s)
  case Nil
  then show ?case by simp
next
  case (Cons x xs)
  obtain r1 s1 where b: "body x s = (r1, s1)" by (cases "body x s")
  with Cons assms(1)[OF b] show ?case
    by (cases r1) auto
qed

lemma supervised_pass_margin:
  assumes "supervised_pass env cfg w e s = (r, s')"
  shows "contrastive_loss_fct s' = contrastive_loss_fct s"
proof -
  have tb: "\<And>x s r s'. train_batch env cfg w e x s = (r, s')
              \<Longrightarrow> contrastive_loss_fct s' = contrastive_loss_fct s"
    by (auto simp: train_batch_def wandb_log_def wandb_def
             split: sum.splits prod.splits option.splits if_splits)
  have le: "\<And>s r s'. lr_epoch_end env w e s = (r, s')
              \<Longrightarrow> contrastive_loss_fct s' = contrastive_loss_fct s"
    by (auto simp: lr_epoch_end_def Let_def wandb_log_def wandb_def
             split: prod.splits option.splits if_splits)
  from assms show ?thesis
    unfolding supervised_pass_def
  proof (cases rule: seq_cases)
    case (first x)
    from for_each_preserves[of "train_batch env cfg w e" contrastive_loss_fct, OF tb first(1)]
    show ?thesis .
  next
    case (second s1)
    from for_each_preserves[of "train_batch env cfg w e" contrastive_loss_fct, OF tb second(1)]
      le[OF second(2)]
    show ?thesis by simp
  qed
qed

lemma contrastive_pass_margin:
  assumes "contrastive_pass env cfg w e s = (None, s')"
  shows "contrastive_loss_fct s'
           = (if contrastive cfg then margin_step env (contrastive_loss_fct s)
              else contrastive_loss_fct s)"
proof (cases "contrastive cfg")
  case False
  with assms show ?thesis by (simp add: contrastive_pass_def)
next
  case True
  have cb: "\<And>x s r s'. contrastive_batch env cfg w e x s = (r, s')
              \<Longrightarrow> contrastive_loss_fct s' = contrastive_loss_fct s"
    by (auto simp: contrastive_batch_def wandb_log_def wandb_def
             split: sum.splits prod.splits option.splits if_splits)
  have ce: "\<And>s r s'. contrastive_epoch_end env w e s = (r, s')
              \<Longrightarrow> contrastive_loss_fct s' = margin_step env (contrastive_loss_fct s)"
    by (auto simp: contrastive_epoch_end_def Let_def wandb_log_def wandb_def
             split: prod.splits option.splits if_splits)
  from assms True have "seq (for_each (contrastive_batch env cfg w e)
                  (enumerate 0 (contrastive_generator env)))
               (contrastive_epoch_end env w e) s = (None, s')"
    by (simp add: contrastive_pass_def)
  then show ?thesis
  proof (cases rule: seq_cases)
    case (second s1)
    from for_each_preserves[of "contrastive_batch env cfg w e" contrastive_loss_fct, OF cb second(1)]
      ce[OF second(2)] True
    show ?thesis by simp
  qed simp
qed

lemma validation_margin:
  assumes "validation env cfg w e s = (r, s')"
  shows "contrastive_loss_fct s' = contrastive_loss_fct s"
  using assms
  by (auto simp: validation_defs split: sum.splits prod.splits option.splits if_splits)

lemma epoch_margin:
  assumes "epoch env cfg w e s = (None, s')"
  shows "contrastive_loss_fct s'
           = (if contrastive cfg then margin_step env (contrastive_loss_fct s)
              else contrastive_loss_fct s)"
proof -
  from assms obtain s1 s2 where
    a: "supervised_pass env cfg w e (s\<lparr>epo := Some e\<rparr>) = (None, s1)" and
    b: "contrastive_pass env cfg w e s1 = (None, s2)" and
    c: "validation env cfg w e s2 = (None, s')"
    by (auto simp: epoch_def elim!: seq_cases)
  from supervised_pass_margin[OF a] contrastive_pass_margin[OF b] validation_margin[OF c]
  show ?thesis by simp
qed

lemma epoch_loop_margin:
  assumes "epoch_loop env cfg w es s = (None, s')"
  shows "contrastive_loss_fct s'
           = (margin_step env ^^ (if contrastive cfg then length es else 0)) (contrastive_loss_fct s)"
  using assms
proof (induction es arbitrary: s)
  case Nil
  then show ?case by (simp add: epoch_loop_def)
next
  case (Cons e es)
  from Cons.prems(1) obtain s1 where
    e: "epoch env cfg w e s = (None, s1)" and rest: "epoch_loop env cfg w es s1 = (None, s')"
    by (auto simp: epoch_loop_def split: prod.splits option.splits)
  from epoch_margin[OF e] Cons.IH[OF rest] show ?case
    by (simp add: funpow_swap1)
qed

text \<open>
  Claim C8, on the scheduler modelled from the specification. With a non-negative maximum,
  the margin after \<open>e\<close> steps is the value of the schedule at \<open>e\<close> and lies between 0 and
  the maximum, for every epoch index \<open>e\<close> up to \<open>N_epoch\<close>; and in a run of
  \<^verbatim>\<open>main\<close> whose margin object is this scheduler, created with \<open>N_epoch\<close> the number
  of epochs, the margin at every epoch boundary lies between 0 and the maximum.
\<close>

theorem margin_bounded:
  assumes "0 \<le> M"
  shows "(e \<le> N_epoch \<longrightarrow>
            current_margin ((margin_scheduler_step ^^ e) (margin_init M N_epoch N_restart kind))
              = schedule kind M N_epoch N_restart e
          \<and> 0 \<le> schedule kind M N_epoch N_restart e
          \<and> schedule kind M N_epoch N_restart e \<le> M)
       \<and> (margin_step env = margin_scheduler_step \<and> margin_of env = current_margin
          \<and> initial_margin_loss env = margin_init M (nat (epochs cfg)) N_restart kind
          \<and> j \<le> nat (epochs cfg)
          \<and> epoch_loop env cfg w [0..<j] ((initial_state env)\<lparr>sink := k\<rparr>) = (None, s)
          \<longrightarrow> 0 \<le> margin_of env (contrastive_loss_fct s)
              \<and> margin_of env (contrastive_loss_fct s) \<le> M)"
proof (intro conjI impI)
  assume "e \<le> N_epoch"
  from schedule_bounded[OF assms this]
  show "0 \<le> schedule kind M N_epoch N_restart e" "schedule kind M N_epoch N_restart e \<le> M"
    by simp_all
  show "current_margin ((margin_scheduler_step ^^ e) (margin_init M N_epoch N_restart kind))
              = schedule kind M N_epoch N_restart e"
    by (simp add: margin_steps)
next
  assume h: "margin_step env = margin_scheduler_step \<and> margin_of env = current_margin
          \<and> initial_margin_loss env = margin_init M (nat (epochs cfg)) N_restart kind
          \<and> j \<le> nat (epochs cfg)
          \<and> epoch_loop env cfg w [0..<j] ((initial_state env)\<lparr>sink := k\<rparr>) = (None, s)"
  let ?n = "if contrastive cfg then j else 0"
  from h have l: "epoch_loop env cfg w [0..<j] ((initial_state env)\<lparr>sink := k\<rparr>) = (None, s)"
    by simp
  from epoch_loop_margin[OF l] h
  have "contrastive_loss_fct s
          = (margin_scheduler_step ^^ ?n) (margin_init M (nat (epochs cfg)) N_restart kind)"
    by (simp add: initial_state_def)
  then have m: "margin_of env (contrastive_loss_fct s) = schedule kind M (nat (epochs cfg)) N_restart ?n"
    using h by (simp add: margin_steps)
  have "?n \<le> nat (epochs cfg)" using h by simp
  from schedule_bounded[OF assms this] m
  show "0 \<le> margin_of env (contrastive_loss_fct s)" "margin_of env (contrastive_loss_fct s) \<le> M"
    by simp_all
qed

theorem margin_bounded_witness:
  "(0 :: real) \<le> 1 / 4
   \<and> current_margin ((margin_scheduler_step ^^ 2) (margin_init (1 / 4) 3 10 LinearDecay)) = 1 / 12
   \<and> schedule LinearDecay (1 / 4) 3 10 2 = 1 / 12
   \<and> schedule CosineRestarts (1 / 4) 50 10 20 = 1 / 4
   \<and> fst (epoch_loop margin_env
             (fst (resolve_task [''halogenase''] (example_config\<lparr>contrastive := True\<rparr>)))
             False [0..<2] ((initial_state margin_env)\<lparr>sink := []\<rparr>)) = None
   \<and> 0 \<le> margin_of margin_env
             (contrastive_loss_fct
               (snd (epoch_loop margin_env
                       (fst (resolve_task [''halogenase''] (example_config\<lparr>contrastive := True\<rparr>)))
                       False [0..<2] ((initial_state margin_env)\<lparr>sink := []\<rparr>))))
   \<and> margin_of margin_env
         (contrastive_loss_fct
           (snd (epoch_loop margin_env
                   (fst (resolve_task [''halogenase''] (example_config\<lparr>contrastive := True\<rparr>)))
                   False [0..<2] ((initial_state margin_env)\<lparr>sink := []\<rparr>))))
       \<le> 1 / 4"
proof -
  let ?R = "fst (resolve_task [''halogenase''] (example_config\<lparr>contrastive := True\<rparr>))"
  let ?s = "snd (epoch_loop margin_env ?R False [0..<2] ((initial_state margin_env)\<lparr>sink := []\<rparr>))"
  have m: "(0 :: real) \<le> 1 / 4" by simp
  have l1: "schedule LinearDecay (1 / 4) 3 10 2 = 1 / 12" by (simp add: schedule_def)
  have l2: "schedule CosineRestarts (1 / 4) 50 10 20 = 1 / 4" by (simp add: schedule_def)
  have e: "epochs ?R = 3" by (simp add: example_config_def)
  have g: "margin_step margin_env = margin_scheduler_step \<and> margin_of margin_env = current_margin
          \<and> initial_margin_loss margin_env = margin_init (1 / 4) (nat (epochs ?R)) 10 LinearDecay
          \<and> (2 :: nat) \<le> nat (epochs ?R)"
    unfolding e by (simp add: margin_env_def generic_env_def)
  have u: "[0..<2] = [0, Suc 0]" by (simp add: upt_rec)
  have f: "fst (epoch_loop margin_env ?R False [0..<2] ((initial_state margin_env)\<lparr>sink := []\<rparr>)) = None"
    unfolding u
    by (simp add: epoch_loop_def epoch_def supervised_pass_def contrastive_pass_def
                  validation_def checkpoint_def train_batch_def contrastive_batch_def
                  lr_epoch_end_def contrastive_epoch_end_def test_def step_def
                  contrastive_step_def wandb_log_def torch_save_def log_artifact_def seq_def
                  initial_state_def val_metrics_def epoch_val_results_def resolve_task_def
                  Let_def margin_env_def generic_env_def example_config_def)
  then have l: "epoch_loop margin_env ?R False [0..<2] ((initial_state margin_env)\<lparr>sink := []\<rparr>)
                  = (None, ?s)"
    by (simp add: prod_eq_iff)
  note b = margin_bounded[OF m, where e = 2 and N_epoch = 3 and N_restart = 10 and kind = LinearDecay
             and env = margin_env and cfg = ?R and j = 2 and w = False and k = "[]" and s = ?s]
  from b have c: "current_margin ((margin_scheduler_step ^^ 2) (margin_init (1 / 4) 3 10 LinearDecay))
                    = schedule LinearDecay (1 / 4) 3 10 2"
    by simp
  from b g l have d: "0 \<le> margin_of margin_env (contrastive_loss_fct ?s)"
    "margin_of margin_env (contrastive_loss_fct ?s) \<le> 1 / 4"
    by blast+
  from m c l1 l2 f d show ?thesis
    by (intro conjI) simp_all
qed

end
